theory Spec2Isabelle
  imports Complex_Main
begin

section \<open>Accelerometer calibration of pyberryimu (calibration/standard.py)\<close>

text \<open>
  The numpy arrays of the source are lists: a vector is a \<open>real list\<close>, a matrix is the
  list of its rows. A float64 is an exact real number here, so that rounding is left out;
  what numpy does where the reals have no answer (a division by zero) is written out where
  the source divides.
\<close>

type_synonym vec = "real list"
type_synonym mat = "real list list"

subsection \<open>Array operations of numpy used by the source\<close>

definition vsub :: "vec \<Rightarrow> vec \<Rightarrow> vec" where
  \<comment> \<open>\<open>a - b\<close> on two arrays of one shape\<close>
  "vsub a b = map2 (-) a b"

definition vmul :: "vec \<Rightarrow> vec \<Rightarrow> vec" where
  \<comment> \<open>\<open>a * b\<close>, elementwise\<close>
  "vmul a b = map2 (*) a b"

definition vdot :: "vec \<Rightarrow> vec \<Rightarrow> real" where
  "vdot a b = sum_list (map2 (*) a b)"

definition mat_vec :: "mat \<Rightarrow> vec \<Rightarrow> vec" where
  \<comment> \<open>\<open>M.dot(v)\<close> for a 2-d array M and a 1-d array v\<close>
  "mat_vec M v = map (\<lambda>row. vdot row v) M"

subsection \<open>The residual and its Jacobian row\<close>

definition error_function :: "mat \<Rightarrow> vec \<Rightarrow> vec \<Rightarrow> real" where
  \<comment> \<open>\<open>lambda M, b, y: np.sum((M.dot((b - y)) ** 2)) - 1\<close>\<close>
  "error_function M b y = sum_list (map (\<lambda>v. v ^ 2) (mat_vec M (vsub b y))) - 1"

definition jacobian :: "mat \<Rightarrow> vec \<Rightarrow> vec \<Rightarrow> vec" where
  "jacobian M_mat b_vec point =
    [ 2 * (b_vec ! 0 - point ! 0) * (
        M_mat ! 0 ! 0 * (b_vec ! 0 - point ! 0) + M_mat ! 0 ! 1 * (b_vec ! 1 - point ! 1) + M_mat ! 0 ! 2 * (
        b_vec ! 2 - point ! 2)),
      2 * (b_vec ! 1 - point ! 1) * (
        M_mat ! 0 ! 0 * (b_vec ! 0 - point ! 0) + M_mat ! 0 ! 1 * (b_vec ! 1 - point ! 1) + M_mat ! 0 ! 2 * (
          b_vec ! 2 - point ! 2)) + 2 * (b_vec ! 0 - point ! 0) * (
        M_mat ! 0 ! 1 * (b_vec ! 0 - point ! 0) + M_mat ! 1 ! 1 * (b_vec ! 1 - point ! 1) + M_mat ! 1 ! 2 * (
        b_vec ! 2 - point ! 2)),
      2 * (b_vec ! 0 - point ! 0) * (
        M_mat ! 0 ! 2 * (b_vec ! 0 - point ! 0) + M_mat ! 1 ! 2 * (b_vec ! 1 - point ! 1) + M_mat ! 2 ! 2 * (
          b_vec ! 2 - point ! 2)) + 2 * (b_vec ! 2 - point ! 2) * (
        M_mat ! 0 ! 0 * (b_vec ! 0 - point ! 0) + M_mat ! 0 ! 1 * (b_vec ! 1 - point ! 1) + M_mat ! 0 ! 2 * (
        b_vec ! 2 - point ! 2)),
      2 * (b_vec ! 1 - point ! 1) * (
        M_mat ! 0 ! 1 * (b_vec ! 0 - point ! 0) + M_mat ! 1 ! 1 * (b_vec ! 1 - point ! 1) + M_mat ! 1 ! 2 * (
        b_vec ! 2 - point ! 2)),
      2 * (b_vec ! 1 - point ! 1) * (
        M_mat ! 0 ! 2 * (b_vec ! 0 - point ! 0) + M_mat ! 1 ! 2 * (b_vec ! 1 - point ! 1) + M_mat ! 2 ! 2 * (
          b_vec ! 2 - point ! 2)) + 2 * (b_vec ! 2 - point ! 2) * (
        M_mat ! 0 ! 1 * (b_vec ! 0 - point ! 0) + M_mat ! 1 ! 1 * (b_vec ! 1 - point ! 1) + M_mat ! 1 ! 2 * (
        b_vec ! 2 - point ! 2)),
      2 * (b_vec ! 2 - point ! 2) * (
        M_mat ! 0 ! 2 * (b_vec ! 0 - point ! 0) + M_mat ! 1 ! 2 * (b_vec ! 1 - point ! 1) + M_mat ! 2 ! 2 * (
        b_vec ! 2 - point ! 2)),
      2 * M_mat ! 0 ! 0 * (
        M_mat ! 0 ! 0 * (b_vec ! 0 - point ! 0) + M_mat ! 0 ! 1 * (b_vec ! 1 - point ! 1) + M_mat ! 0 ! 2 * (
          b_vec ! 2 - point ! 2)) + 2 * M_mat ! 0 ! 1 * (
        M_mat ! 0 ! 1 * (b_vec ! 0 - point ! 0) + M_mat ! 1 ! 1 * (b_vec ! 1 - point ! 1) + M_mat ! 1 ! 2 * (
          b_vec ! 2 - point ! 2)) + 2 * M_mat ! 0 ! 2 * (
        M_mat ! 0 ! 2 * (b_vec ! 0 - point ! 0) + M_mat ! 1 ! 2 * (b_vec ! 1 - point ! 1) + M_mat ! 2 ! 2 * (
        b_vec ! 2 - point ! 2)),
      2 * M_mat ! 0 ! 1 * (
        M_mat ! 0 ! 0 * (b_vec ! 0 - point ! 0) + M_mat ! 0 ! 1 * (b_vec ! 1 - point ! 1) + M_mat ! 0 ! 2 * (
          b_vec ! 2 - point ! 2)) + 2 * M_mat ! 1 ! 1 * (
        M_mat ! 0 ! 1 * (b_vec ! 0 - point ! 0) + M_mat ! 1 ! 1 * (b_vec ! 1 - point ! 1) + M_mat ! 1 ! 2 * (
          b_vec ! 2 - point ! 2)) + 2 * M_mat ! 1 ! 2 * (
        M_mat ! 0 ! 2 * (b_vec ! 0 - point ! 0) + M_mat ! 1 ! 2 * (b_vec ! 1 - point ! 1) + M_mat ! 2 ! 2 * (
        b_vec ! 2 - point ! 2)),
      2 * M_mat ! 0 ! 2 * (
        M_mat ! 0 ! 0 * (b_vec ! 0 - point ! 0) + M_mat ! 0 ! 1 * (b_vec ! 1 - point ! 1) + M_mat ! 0 ! 2 * (
          b_vec ! 2 - point ! 2)) + 2 * M_mat ! 1 ! 2 * (
        M_mat ! 0 ! 1 * (b_vec ! 0 - point ! 0) + M_mat ! 1 ! 1 * (b_vec ! 1 - point ! 1) + M_mat ! 1 ! 2 * (
          b_vec ! 2 - point ! 2)) + 2 * M_mat ! 2 ! 2 * (
        M_mat ! 0 ! 2 * (b_vec ! 0 - point ! 0) + M_mat ! 1 ! 2 * (b_vec ! 1 - point ! 1) + M_mat ! 2 ! 2 * (
        b_vec ! 2 - point ! 2)) ]"

definition optvec_to_M_and_b :: "vec \<Rightarrow> mat \<times> vec" where
  \<comment> \<open>\<open>np.array([[v[0], v[1], v[2]], [v[1], v[3], v[4]], [v[2], v[4], v[5]]]), v[6:].copy()\<close>\<close>
  "optvec_to_M_and_b v =
     ([[v ! 0, v ! 1, v ! 2], [v ! 1, v ! 3, v ! 4], [v ! 2, v ! 4, v ! 5]], drop 6 v)"

definition residual :: "vec \<Rightarrow> vec \<Rightarrow> real" where
  \<comment> \<open>the residual of one point as the loop computes it from the optimisation vector\<close>
  "residual x point = (case optvec_to_M_and_b x of (M, b) \<Rightarrow> error_function M b point)"


subsection \<open>Errors and the calibration object\<close>

datatype error =
    PyBerryIMUError string
  | ValueError string
  | ZeroDivisionError
  | LinAlgError
  | TypeError
  | AttributeError

text \<open>A decoded JSON document; Python's \<open>None\<close> is \<open>JNull\<close>, a dict is \<open>JObj\<close>.\<close>

datatype json = JNull | JNum real | JStr string | JList "json list" | JObj "(string \<times> json) list"

text \<open>
  The attributes of \<open>StandardCalibration\<close>. The four accelerometer parameters start as
  \<open>None\<close>. The two metadata attributes hold whatever Python value is assigned to them.
  The attribute \<open>_verbose\<close> only switches printing and is left out.
\<close>

record calibration =
  pyberryimu_version :: json
  berryimu_settings :: json
  acc_zero_g :: "vec option"
  acc_sensitivity :: "vec option"
  acc_scale_factor_matrix :: "mat option"
  acc_bias_vector :: "vec option"
  gyro_zero :: vec
  gyro_sensitivity :: vec

definition StandardCalibration :: "string \<Rightarrow> calibration" where
  \<comment> \<open>the constructor; \<open>version\<close> is the constant of the package's \<open>__init__\<close>\<close>
  "StandardCalibration version =
     \<lparr> pyberryimu_version = JStr version, berryimu_settings = JNull,
       acc_zero_g = None, acc_sensitivity = None,
       acc_scale_factor_matrix = None, acc_bias_vector = None,
       gyro_zero = [0, 0, 0], gyro_sensitivity = [1, 1, 1] \<rparr>"

text \<open>
  The client, as far as calibration reads it. Polling, the five-second sampling windows
  and the operator's key presses are not modelled: the client hands over the averaged
  reading that the six-point pass records for an axis and a side (\<open>-1\<close> downwards,
  \<open>1\<close> upwards) and the averaged readings of the additional points the operator adds
  before answering \<open>n\<close>. The class \<open>BerryIMUClient\<close> of \<open>client.py\<close> defines no
  method \<open>get_settings\<close>: for such a client the field is \<open>None\<close> and the call
  raises \<open>AttributeError\<close>; for a client that has the method the field holds what it
  returns.
\<close>

record client =
  get_settings :: "json option"
  six_point_mean :: "nat \<Rightarrow> int \<Rightarrow> vec"
  additional_means :: "vec list"

subsection \<open>The six-point pass\<close>

fun six_point_axes :: "client \<Rightarrow> nat list \<Rightarrow> vec \<Rightarrow> vec \<Rightarrow> vec list \<Rightarrow> vec \<times> vec \<times> (error + vec list)" where
  "six_point_axes c [] zero sens points = (zero, sens, Inr points)"
| "six_point_axes c (index # rest) zero sens points =
     (let down = six_point_mean c index (- 1);
          up = six_point_mean c index 1;
          points' = (points @ [down]) @ [up];
          this_axis_points = [down ! index, up ! index];
          v_max = Max (set this_axis_points);
          v_min = Min (set this_axis_points);
          zero' = zero[index := (v_max + v_min) / 2]
      in if v_max - v_min = 0 then (zero', sens, Inl ZeroDivisionError)
         else six_point_axes c rest zero' (sens[index := 2 / (v_max - v_min)]) points')"

definition do_six_point_one_g_calibration :: "client \<Rightarrow> calibration \<Rightarrow> calibration \<times> (error + vec list)" where
  "do_six_point_one_g_calibration c self =
     (case six_point_axes c [0, 1, 2] [0, 0, 0] [0, 0, 0] [] of
        (zero, sens, r) \<Rightarrow> (self\<lparr>acc_zero_g := Some zero, acc_sensitivity := Some sens\<rparr>, r))"

definition add_additional_points :: "client \<Rightarrow> vec list" where
  "add_additional_points c = additional_means c"

subsection \<open>The forward transform\<close>

definition transform_accelerometer_values :: "calibration \<Rightarrow> vec \<Rightarrow> error + vec" where
  "transform_accelerometer_values self acc_values =
     (case acc_zero_g self of None \<Rightarrow> Inl TypeError | Some zero \<Rightarrow>
      (case acc_sensitivity self of None \<Rightarrow> Inl TypeError | Some sens \<Rightarrow>
        (let raw_g_values = vmul (vsub acc_values zero) sens in
         (case acc_scale_factor_matrix self of None \<Rightarrow> Inl AttributeError | Some M \<Rightarrow>
          (case acc_bias_vector self of None \<Rightarrow> Inl TypeError | Some B \<Rightarrow>
            Inr (mat_vec M (vsub raw_g_values B)))))))"

subsection \<open>Saving and loading\<close>

definition dict_get :: "json \<Rightarrow> string \<Rightarrow> json \<Rightarrow> error + json" where
  \<comment> \<open>\<open>d.get(key, default)\<close>; only a dict has the method\<close>
  "dict_get d key dflt =
     (case d of JObj kvs \<Rightarrow> Inr (case map_of kvs key of Some v \<Rightarrow> v | None \<Rightarrow> dflt)
      | _ \<Rightarrow> Inl AttributeError)"

fun is_num :: "json \<Rightarrow> bool" where
  "is_num (JNum r) = True"
| "is_num j = False"

fun num_of :: "json \<Rightarrow> real" where
  "num_of (JNum r) = r"
| "num_of j = 0"

definition np_array_float :: "json \<Rightarrow> error + vec" where
  \<comment> \<open>\<open>np.array(v, 'float')\<close> for a flat list of numbers, the only shape the attributes
      hold; any other value is refused here\<close>
  "np_array_float v =
     (case v of JList js \<Rightarrow> if list_all is_num js then Inr (map num_of js)
                            else Inl (ValueError ''could not convert to float'')
      | _ \<Rightarrow> Inl (ValueError ''not a flat list of numbers''))"

definition reshape33 :: "vec \<Rightarrow> error + mat" where
  \<comment> \<open>\<open>np.reshape(a, (3, 3))\<close>\<close>
  "reshape33 a =
     (if length a = 9 then Inr [take 3 a, take 3 (drop 3 a), drop 6 a]
      else Inl (ValueError ''cannot reshape array into shape (3,3)''))"

definition tolist :: "vec \<Rightarrow> json" where
  "tolist v = JList (map JNum v)"

definition bind_error :: "error + 'a \<Rightarrow> ('a \<Rightarrow> error + 'b) \<Rightarrow> error + 'b" where
  "bind_error r f = (case r of Inl e \<Rightarrow> Inl e | Inr v \<Rightarrow> f v)"

definition save :: "calibration \<Rightarrow> error + json" where
  \<comment> \<open>the document that \<open>json.dump\<close> writes to \<open>save_path\<close>; \<open>.tolist()\<close> of an
      attribute that is still \<open>None\<close> raises inside the \<open>try\<close>\<close>
  "save self =
     (case (acc_zero_g self, acc_sensitivity self, acc_scale_factor_matrix self, acc_bias_vector self) of
        (Some zero, Some sens, Some M, Some B) \<Rightarrow>
          Inr (JObj
            [(''BerryIMU_settings'', berryimu_settings self),
             (''accelerometer'', JObj
                [(''zero'', tolist zero),
                 (''sensitivity'', tolist sens),
                 (''scale_factor'', tolist (concat M)),
                 (''bias'', tolist B)]),
             (''gyro'', JObj
                [(''zero'', tolist (gyro_zero self)),
                 (''sensitivity'', tolist (gyro_sensitivity self))])])
      | _ \<Rightarrow> Inl (PyBerryIMUError ''Could not save ''))"

definition load :: "string \<Rightarrow> json \<Rightarrow> error + calibration" where
  \<comment> \<open>\<open>doc\<close> is what \<open>json.load\<close> reads from \<open>doc_path\<close>\<close>
  "load version doc =
     (let out = StandardCalibration version in
      bind_error (dict_get doc ''pyberryimu_version'' (JStr version)) (\<lambda>v1.
      bind_error (dict_get doc ''BerryIMU_settings'' (JObj [])) (\<lambda>v2.
      bind_error (dict_get doc ''accelerometer'' (JObj [])) (\<lambda>acc_doc.
      bind_error (bind_error (dict_get acc_doc ''zero'' (tolist [0, 0, 0])) np_array_float) (\<lambda>zero.
      bind_error (bind_error (dict_get acc_doc ''sensitivity'' (tolist [1, 1, 1])) np_array_float) (\<lambda>sens.
      bind_error (bind_error (bind_error (dict_get acc_doc ''scale_factor''
                     (tolist [1, 0, 0, 0, 1, 0, 0, 0, 1])) np_array_float) reshape33) (\<lambda>M.
      bind_error (bind_error (dict_get acc_doc ''bias'' (tolist [0, 0, 0])) np_array_float) (\<lambda>B.
      bind_error (dict_get doc ''gyroscope'' (JObj [])) (\<lambda>gyro_doc.
      bind_error (bind_error (dict_get gyro_doc ''zero'' (tolist [0, 0, 0])) np_array_float) (\<lambda>gz.
      bind_error (bind_error (dict_get gyro_doc ''sensitivity'' (tolist [1, 1, 1])) np_array_float) (\<lambda>gs.
        Inr (out\<lparr> berryimu_settings := v1, pyberryimu_version := v2,
                   acc_zero_g := Some zero, acc_sensitivity := Some sens,
                   acc_scale_factor_matrix := Some M, acc_bias_vector := Some B,
                   gyro_zero := gz, gyro_sensitivity := gs \<rparr>))))))))))))"


subsection \<open>Linear algebra of numpy used by the solver\<close>

definition vadd :: "vec \<Rightarrow> vec \<Rightarrow> vec" where
  "vadd a b = map2 (+) a b"

definition vscale :: "real \<Rightarrow> vec \<Rightarrow> vec" where
  "vscale k a = map (\<lambda>v. k * v) a"

definition vec_mat :: "vec \<Rightarrow> mat \<Rightarrow> vec" where
  \<comment> \<open>\<open>v.dot(A)\<close> for a 1-d array v and a 2-d array A\<close>
  "vec_mat v A = map (\<lambda>col. vdot v col) (transpose A)"

definition mat_mul :: "mat \<Rightarrow> mat \<Rightarrow> mat" where
  \<comment> \<open>\<open>A.dot(B)\<close> for two 2-d arrays\<close>
  "mat_mul A B = map (\<lambda>row. vec_mat row B) A"

definition norm2 :: "vec \<Rightarrow> real" where
  \<comment> \<open>\<open>np.linalg.norm\<close> of a 1-d array\<close>
  "norm2 v = sqrt (sum_list (map (\<lambda>t. t ^ 2) v))"

definition identity :: "nat \<Rightarrow> mat" where
  "identity n = map (\<lambda>i. map (\<lambda>j. if i = j then 1 else 0) [0..<n]) [0..<n]"

text \<open>
  \<open>np.linalg.inv\<close> in exact arithmetic: Gauss-Jordan elimination on the matrix extended
  by the identity. The rows still to be reduced are searched for one with a non-zero
  leading entry; when there is none the matrix is singular and numpy raises
  \<open>LinAlgError\<close>. A reduced column is dropped, so that after the last column each row
  is a row of the inverse.
\<close>

fun pivot_split :: "mat \<Rightarrow> (vec \<times> mat) option" where
  "pivot_split [] = None"
| "pivot_split ([] # rs) = None"
| "pivot_split ((a # r) # rs) =
     (if a \<noteq> 0 then Some (a # r, rs)
      else (case pivot_split rs of None \<Rightarrow> None | Some (p, rest) \<Rightarrow> Some (p, (a # r) # rest)))"

definition eliminate :: "vec \<Rightarrow> vec \<Rightarrow> vec" where
  "eliminate p r = map2 (\<lambda>a b. a - hd r * b) (tl r) p"

fun gauss_jordan :: "nat \<Rightarrow> mat \<Rightarrow> mat \<Rightarrow> error + mat" where
  "gauss_jordan 0 reduced todo = Inr reduced"
| "gauss_jordan (Suc n) reduced todo =
     (case pivot_split todo of
        None \<Rightarrow> Inl LinAlgError
      | Some (p, rest) \<Rightarrow>
          (let p' = map (\<lambda>v. v / hd p) (tl p)
           in gauss_jordan n (map (eliminate p') reduced @ [p']) (map (eliminate p') rest)))"

definition linalg_inv :: "mat \<Rightarrow> error + mat" where
  "linalg_inv A =
     (if list_all (\<lambda>row. length row = length A) A
      then gauss_jordan (length A) [] (map2 (@) A (identity (length A)))
      else Inl LinAlgError)"

subsection \<open>The convergence criterion\<close>

text \<open>
  The quotient of two float64 arrays does not raise on a zero divisor: numpy gives an
  infinity, or \<open>nan\<close> for \<open>0 / 0\<close>. The values of the quotient array are therefore
  the reals extended by these three.
\<close>

datatype npfloat = Fin real | PInf | NInf | NaN

definition np_divide :: "real \<Rightarrow> real \<Rightarrow> npfloat" where
  "np_divide a b =
     (if b \<noteq> 0 then Fin (a / b)
      else if 0 < a then PInf else if a < 0 then NInf else NaN)"

fun np_gt :: "npfloat \<Rightarrow> npfloat \<Rightarrow> bool" where
  \<comment> \<open>\<open>a > b\<close>; a comparison with \<open>nan\<close> is false\<close>
  "np_gt NaN b = False"
| "np_gt a NaN = False"
| "np_gt PInf PInf = False"
| "np_gt PInf b = True"
| "np_gt NInf b = False"
| "np_gt (Fin a) PInf = False"
| "np_gt (Fin a) NInf = True"
| "np_gt (Fin a) (Fin b) = (b < a)"

fun np_abs :: "npfloat \<Rightarrow> npfloat" where
  "np_abs (Fin a) = Fin \<bar>a\<bar>"
| "np_abs PInf = PInf"
| "np_abs NInf = PInf"
| "np_abs NaN = NaN"

fun np_le_real :: "npfloat \<Rightarrow> real \<Rightarrow> bool" where
  \<comment> \<open>\<open>a <= t\<close> for a finite t\<close>
  "np_le_real (Fin a) t = (a \<le> t)"
| "np_le_real NInf t = True"
| "np_le_real PInf t = False"
| "np_le_real NaN t = False"

fun py_max_from :: "npfloat \<Rightarrow> npfloat list \<Rightarrow> npfloat" where
  \<comment> \<open>the loop of Python's \<open>max\<close>: an item replaces the maximum when it is greater\<close>
  "py_max_from m [] = m"
| "py_max_from m (v # vs) = py_max_from (if np_gt v m then v else m) vs"

definition py_max :: "npfloat list \<Rightarrow> error + npfloat" where
  "py_max vs = (case vs of [] \<Rightarrow> Inl (ValueError ''max() arg is an empty sequence'')
                | v # rest \<Rightarrow> Inr (py_max_from v rest))"

definition tolerance :: real where
  "tolerance = 1 / 10 ^ 9"

definition relative_change :: "vec \<Rightarrow> vec \<Rightarrow> npfloat list" where
  \<comment> \<open>\<open>2 * (x - last_x) / (x + last_x)\<close>\<close>
  "relative_change x last_x = map2 np_divide (vscale 2 (vsub x last_x)) (vadd x last_x)"

definition converged :: "vec \<Rightarrow> vec \<Rightarrow> error + bool" where
  \<comment> \<open>\<open>abs(max(2 * (x - last_x) / (x + last_x))) <= tolerance\<close>\<close>
  "converged x last_x =
     (case py_max (relative_change x last_x) of
        Inl e \<Rightarrow> Inl e
      | Inr m \<Rightarrow> Inr (np_le_real (np_abs m) tolerance))"

subsection \<open>The Gauss-Newton loop\<close>

definition damping :: real where
  "damping = 1 / 100"

definition x_init :: vec where
  "x_init = [5, 1 / 2, 1 / 2, 5, 1 / 2, 5, 1 / 2, 1 / 2, 1 / 2]"

definition nbr_iterations :: nat where
  "nbr_iterations = 200"

text \<open>
  One run of the \<open>for\<close> loop with \<open>n\<close> iterations left. The state is \<open>x\<close>,
  \<open>last_x\<close>, \<open>gain\<close> and \<open>R_prior\<close>. The result is an error raised in the loop,
  \<open>Some\<close> of the pair that the \<open>break\<close> branch assigns to the object, or \<open>None\<close> when
  the loop ends without reaching the \<open>break\<close>.
\<close>

fun gauss_newton :: "nat \<Rightarrow> vec list \<Rightarrow> vec \<Rightarrow> vec \<Rightarrow> real \<Rightarrow> real \<Rightarrow> error + (mat \<times> vec) option" where
  "gauss_newton 0 points x last_x gain R_prior = Inr None"
| "gauss_newton (Suc n) points x last_x gain R_prior =
     (case optvec_to_M_and_b x of (M, b) \<Rightarrow>
      (let R = map (\<lambda>point. error_function M b point) points;
           J = map (\<lambda>point. jacobian M b point) points
       in (case linalg_inv (mat_mul (transpose J) J) of
             Inl e \<Rightarrow> Inl e
           | Inr H \<Rightarrow>
              (let D = mat_vec (transpose J) R;
                   x' = vsub x (vscale gain (vec_mat D H));
                   R_post = norm2 R;
                   gain' = (if R_post \<le> R_prior then gain - damping * gain else gain * damping)
               in (case converged x' last_x of
                     Inl e \<Rightarrow> Inl e
                   | Inr True \<Rightarrow> Inr (Some (optvec_to_M_and_b x'))
                   | Inr False \<Rightarrow> gauss_newton n points x' x' gain' R_post)))))"

definition perform_calibration_optimisation :: "calibration \<Rightarrow> vec list \<Rightarrow> calibration \<times> error option" where
  \<comment> \<open>the object after the call, and the exception when the call raises\<close>
  "perform_calibration_optimisation self points =
     (if length points < 9
      then (self, Some (ValueError ''Need at least 9 Measurements for the calibration procedure!''))
      else (case gauss_newton nbr_iterations points x_init x_init 1 100000 of
              Inl e \<Rightarrow> (self, Some e)
            | Inr None \<Rightarrow> (self, None)
            | Inr (Some (M, b)) \<Rightarrow>
                (self\<lparr>acc_scale_factor_matrix := Some M, acc_bias_vector := Some b\<rparr>, None)))"

text \<open>
  The same method with the number of iterations, the local constant \<open>nbr_iterations\<close>
  of the source, as a parameter: it is \<open>perform_calibration_optimisation\<close> at
  \<open>nbr_iterations\<close>, and runs of a few iterations can be evaluated.
\<close>

definition perform_with_budget :: "nat \<Rightarrow> calibration \<Rightarrow> vec list \<Rightarrow> calibration \<times> error option" where
  "perform_with_budget n self points =
     (if length points < 9
      then (self, Some (ValueError ''Need at least 9 Measurements for the calibration procedure!''))
      else (case gauss_newton n points x_init x_init 1 100000 of
              Inl e \<Rightarrow> (self, Some e)
            | Inr None \<Rightarrow> (self, None)
            | Inr (Some (M, b)) \<Rightarrow>
                (self\<lparr>acc_scale_factor_matrix := Some M, acc_bias_vector := Some b\<rparr>, None)))"

subsection \<open>Calibrating the accelerometer\<close>

definition calibrate_accelerometer :: "client \<Rightarrow> calibration \<Rightarrow> calibration \<times> error option" where
  "calibrate_accelerometer c self =
     (if acc_zero_g self \<noteq> None
      then (self, Some (PyBerryIMUError ''This object has already been calibrated!''))
      else
       (case get_settings c of
          None \<Rightarrow> (self, Some AttributeError)
        | Some settings \<Rightarrow>
           (let self1 = self\<lparr>berryimu_settings := settings\<rparr> in
            (case do_six_point_one_g_calibration c self1 of
               (self2, Inl e) \<Rightarrow> (self2, Some e)
             | (self2, Inr six) \<Rightarrow>
                (let points = six @ add_additional_points c in
                 (case acc_zero_g self2 of None \<Rightarrow> (self2, Some TypeError) | Some zero \<Rightarrow>
                  (case acc_sensitivity self2 of None \<Rightarrow> (self2, Some TypeError) | Some sens \<Rightarrow>
                     perform_calibration_optimisation self2
                       (map (\<lambda>point. vmul (vsub point zero) sens) points))))))))"

subsection \<open>Concrete inputs used by the examples\<close>

definition bench :: client where
  \<comment> \<open>a session whose x readings are \<open>-1000\<close> and \<open>1000\<close>, whose y readings are
      \<open>1200\<close> and \<open>-800\<close>, and in which the operator adds no further point\<close>
  "bench = \<lparr> get_settings = Some (JObj [(''acc_setup'', JNum 1)]),
     six_point_mean = (\<lambda>index side.
        if index = 0 then (if side = 1 then [1000, 3, 4] else [- 1000, 5, 6])
        else if index = 1 then (if side = 1 then [7, - 800, 8] else [9, 1200, 10])
        else (if side = 1 then [1, 2, 500] else [3, 4, - 300])),
     additional_means = [] \<rparr>"

definition repository_client :: client where
  \<comment> \<open>the same session with a client that has no \<open>get_settings\<close>\<close>
  "repository_client = bench\<lparr> get_settings := None \<rparr>"

definition stuck :: client where
  \<comment> \<open>a session whose two x readings are both \<open>1000\<close>\<close>
  "stuck = bench\<lparr> six_point_mean := (\<lambda>index side.
        if index = 0 then (if side = 1 then [1000, 3, 4] else [1000, 5, 6])
        else if index = 1 then (if side = 1 then [7, - 800, 8] else [9, 1200, 10])
        else (if side = 1 then [1, 2, 500] else [3, 4, - 300])) \<rparr>"

definition fresh :: calibration where
  "fresh = StandardCalibration ''0.1''"

definition calibrated :: calibration where
  \<comment> \<open>an object with all four accelerometer parameters set\<close>
  "calibrated = fresh\<lparr> berryimu_settings := JObj [(''acc_setup'', JNum 1)],
     acc_zero_g := Some [0, 200, 100], acc_sensitivity := Some [1 / 1000, 1 / 1000, 1 / 400],
     acc_scale_factor_matrix := Some [[1, 0, 0], [0, 1, 0], [0, 0, 1]],
     acc_bias_vector := Some [0, 0, 0] \<rparr>"

text \<open>
  Two sets of twelve points around \<open>(1/2, 1/2, 1/2)\<close>: the six points at distance
  \<open>t\<close> along the axes and the six points \<open>u (e\<^sub>i - e\<^sub>j)\<close> away, with
  \<open>t = u = 1\<close> in the first set and \<open>t = 2\<close>, \<open>u = 1/16\<close> in the second. All
  coordinates are binary fractions.
\<close>

definition shrunk :: "vec list" where
  "shrunk =
  [[- (1 / 2), 1 / 2, 1 / 2],
   [3 / 2, 1 / 2, 1 / 2],
   [1 / 2, - (1 / 2), 1 / 2],
   [1 / 2, 3 / 2, 1 / 2],
   [1 / 2, 1 / 2, - (1 / 2)],
   [1 / 2, 1 / 2, 3 / 2],
   [- (1 / 2), 3 / 2, 1 / 2],
   [3 / 2, - (1 / 2), 1 / 2],
   [- (1 / 2), 1 / 2, 3 / 2],
   [3 / 2, 1 / 2, - (1 / 2)],
   [1 / 2, - (1 / 2), 3 / 2],
   [1 / 2, 3 / 2, - (1 / 2)]]"

definition stalled :: "vec list" where
  "stalled =
  [[- (3 / 2), 1 / 2, 1 / 2],
   [5 / 2, 1 / 2, 1 / 2],
   [1 / 2, - (3 / 2), 1 / 2],
   [1 / 2, 5 / 2, 1 / 2],
   [1 / 2, 1 / 2, - (3 / 2)],
   [1 / 2, 1 / 2, 5 / 2],
   [7 / 16, 9 / 16, 1 / 2],
   [9 / 16, 7 / 16, 1 / 2],
   [7 / 16, 1 / 2, 9 / 16],
   [9 / 16, 1 / 2, 7 / 16],
   [1 / 2, 7 / 16, 9 / 16],
   [1 / 2, 9 / 16, 7 / 16]]"

section \<open>Properties\<close>

subsection \<open>Shapes\<close>

lemma length9_explicit:
  "length (x::real list) = 9 \<Longrightarrow> \<exists>a b c d e f g h k. x = [a, b, c, d, e, f, g, h, k]"
  by (auto simp: length_Suc_conv eval_nat_numeral)

lemma length3_explicit:
  "length (x::real list) = 3 \<Longrightarrow> \<exists>a b c. x = [a, b, c]"
  by (auto simp: length_Suc_conv eval_nat_numeral)

lemma less9_cases:
  "i < (9::nat) \<Longrightarrow> i = 0 \<or> i = 1 \<or> i = 2 \<or> i = 3 \<or> i = 4 \<or> i = 5 \<or> i = 6 \<or> i = 7 \<or> i = 8"
  by arith

lemma all_less3: "(\<forall>i<3. P (i::nat)) = (P 0 \<and> P 1 \<and> P 2)"
  by (auto simp: less_Suc_eq eval_nat_numeral)

subsection \<open>The Jacobian row is the gradient of the residual\<close>

lemma residual_explicit:
  "residual [a, b, c, d, e, f, g, h, k] [p, q, r] =
     (a * (g - p) + b * (h - q) + c * (k - r))\<^sup>2 +
     (b * (g - p) + d * (h - q) + e * (k - r))\<^sup>2 +
     (c * (g - p) + e * (h - q) + f * (k - r))\<^sup>2 - 1"
  by (simp add: residual_def optvec_to_M_and_b_def error_function_def mat_vec_def vdot_def vsub_def add.assoc)

text \<open>
  The source computes \<open>M (b - y)\<close>; the square of its norm is that of \<open>M (y - b)\<close>,
  the form in which the residual is usually written.
\<close>

lemma error_function_sign:
  assumes "length b = 3" and "length y = 3" and "length M = 3" and "\<forall>row \<in> set M. length row = 3"
  shows "error_function M b y = sum_list (map (\<lambda>v. v ^ 2) (mat_vec M (vsub y b))) - 1"
proof -
  obtain b0 b1 b2 where b: "b = [b0, b1, b2]" using assms(1) length3_explicit by blast
  obtain y0 y1 y2 where y: "y = [y0, y1, y2]" using assms(2) length3_explicit by blast
  obtain R0 R1 R2 where m: "M = [R0, R1, R2]"
    using assms(3) by (auto simp: length_Suc_conv eval_nat_numeral)
  from assms(4) m have "length R0 = 3" "length R1 = 3" "length R2 = 3" by simp_all
  then obtain m00 m01 m02 m10 m11 m12 m20 m21 m22 where
    rows: "R0 = [m00, m01, m02]" "R1 = [m10, m11, m12]" "R2 = [m20, m21, m22]"
    using length3_explicit by metis
  have sq: "\<And>u v :: real. u = - v \<Longrightarrow> u\<^sup>2 = v\<^sup>2" by simp
  show ?thesis
    unfolding error_function_def b y m rows mat_vec_def vdot_def vsub_def
    by (simp add: add.assoc) (intro arg_cong2 [where f = "(+)"] sq; simp add: algebra_simps)
qed

lemma partial_explicit:
  assumes "i < 9"
  shows "((\<lambda>t. residual ([a, b, c, d, e, f, g, h, k][i := t]) [p, q, r]) has_field_derivative
           (jacobian [[a, b, c], [b, d, e], [c, e, f]] [g, h, k] [p, q, r] ! i))
           (at ([a, b, c, d, e, f, g, h, k] ! i))"
  using less9_cases [OF assms]
  apply (elim disjE)
  apply (simp_all add: residual_explicit jacobian_def)
  apply (auto intro!: derivative_eq_intros simp: algebra_simps)
  done

text \<open>
  Claim C1. For an optimisation vector \<open>x\<close> of nine parameters, with \<open>M\<close> and \<open>b\<close> the
  symmetric matrix and the bias vector built from it, and for a point of three coordinates,
  component \<open>i\<close> of the row that \<open>_jacobian\<close> computes is the partial derivative, with
  respect to parameter \<open>i\<close> of \<open>x\<close>, of the residual that \<open>error_function\<close> computes.
\<close>

theorem jacobian_is_gradient:
  assumes "length x = 9" and "length point = 3" and "i < 9"
    and "optvec_to_M_and_b x = (M, b)"
  shows "((\<lambda>t. residual (x[i := t]) point) has_field_derivative (jacobian M b point ! i)) (at (x ! i))"
proof -
  from assms(1) obtain a b' c d e f g h k where x: "x = [a, b', c, d, e, f, g, h, k]"
    using length9_explicit by blast
  from assms(2) obtain p q r where pt: "point = [p, q, r]"
    using length3_explicit by blast
  from assms(4) x have M: "M = [[a, b', c], [b', d, e], [c, e, f]]" and b: "b = [g, h, k]"
    by (simp_all add: optvec_to_M_and_b_def)
  show ?thesis
    unfolding x pt M b by (rule partial_explicit [OF assms(3)])
qed

theorem jacobian_is_gradient_witness:
  "length x_init = 9 \<and> length [1, 0, 0 :: real] = 3 \<and> (0::nat) < 9 \<and>
   optvec_to_M_and_b x_init = ([[5, 1/2, 1/2], [1/2, 5, 1/2], [1/2, 1/2, 5]], [1/2, 1/2, 1/2]) \<and>
   ((\<lambda>t. residual (x_init[0 := t]) [1, 0, 0]) has_field_derivative 2) (at 5)"
proof -
  have o: "optvec_to_M_and_b x_init = ([[5, 1/2, 1/2], [1/2, 5, 1/2], [1/2, 1/2, 5]], [1/2, 1/2, 1/2])"
    by (simp add: optvec_to_M_and_b_def x_init_def)
  have l: "length x_init = 9" by (simp add: x_init_def)
  have p: "length [1, 0, 0 :: real] = 3" by simp
  have i: "(0::nat) < 9" by simp
  from jacobian_is_gradient [OF l p i o] show ?thesis
    using o by (simp add: jacobian_def x_init_def)
qed

subsection \<open>The six-point pass\<close>

lemma less3_cases: "index < (3::nat) \<Longrightarrow> index = 0 \<or> index = 1 \<or> index = 2"
  by arith

lemma max_min_same: "(max a b = min a b) = ((a::real) = b)"
  by (auto simp: max_def min_def)

text \<open>
  When the two readings of every axis differ, the pass returns the six recorded points
  and leaves the three zeros and the three sensitivities on the object.
\<close>

lemma six_point_all_axes:
  assumes "\<forall>index<3. length (six_point_mean c index (- 1)) = 3 \<and> length (six_point_mean c index 1) = 3"
    and "\<forall>index<3. six_point_mean c index (- 1) ! index \<noteq> six_point_mean c index 1 ! index"
  shows "\<exists>zero sens points.
           do_six_point_one_g_calibration c self =
             (self\<lparr>acc_zero_g := Some zero, acc_sensitivity := Some sens\<rparr>, Inr points) \<and>
           length zero = 3 \<and> length sens = 3 \<and>
           (\<forall>index<3.
              zero ! index =
                (max (six_point_mean c index (- 1) ! index) (six_point_mean c index 1 ! index) +
                 min (six_point_mean c index (- 1) ! index) (six_point_mean c index 1 ! index)) / 2 \<and>
              sens ! index =
                2 / (max (six_point_mean c index (- 1) ! index) (six_point_mean c index 1 ! index) -
                     min (six_point_mean c index (- 1) ! index) (six_point_mean c index 1 ! index)))"
proof -
  let ?lo = "\<lambda>index. six_point_mean c index (- 1)"
  let ?hi = "\<lambda>index. six_point_mean c index 1"
  let ?mx = "\<lambda>index. max (?lo index ! index) (?hi index ! index)"
  let ?mn = "\<lambda>index. min (?lo index ! index) (?hi index ! index)"
  from assms(2) have d: "?mx 0 - ?mn 0 \<noteq> 0" "?mx 1 - ?mn 1 \<noteq> 0" "?mx 2 - ?mn 2 \<noteq> 0"
    by (auto simp: all_less3 max_def min_def)
  have ax: "six_point_axes c [0, 1, 2] [0, 0, 0] [0, 0, 0] [] =
      ([(?mx 0 + ?mn 0) / 2, (?mx 1 + ?mn 1) / 2, (?mx 2 + ?mn 2) / 2],
       [2 / (?mx 0 - ?mn 0), 2 / (?mx 1 - ?mn 1), 2 / (?mx 2 - ?mn 2)],
       Inr [?lo 0, ?hi 0, ?lo 1, ?hi 1, ?lo 2, ?hi 2])"
    using d by (simp add: Let_def)
  show ?thesis
    apply (rule exI [of _ "[(?mx 0 + ?mn 0) / 2, (?mx 1 + ?mn 1) / 2, (?mx 2 + ?mn 2) / 2]"])
    apply (rule exI [of _ "[2 / (?mx 0 - ?mn 0), 2 / (?mx 1 - ?mn 1), 2 / (?mx 2 - ?mn 2)]"])
    apply (rule exI [of _ "[?lo 0, ?hi 0, ?lo 1, ?hi 1, ?lo 2, ?hi 2]"])
    apply (simp only: do_six_point_one_g_calibration_def ax)
    apply (simp add: all_less3)
    done
qed

text \<open>
  Claim C2, as amended. The axes are processed in the order x, y, z. For an axis that the
  pass reaches, that is when the two values recorded on every earlier axis differ, the
  pass stores \<open>(v_max + v_min) / 2\<close> in \<open>acc_zero_g\<close>; when the two values of the
  axis differ it stores \<open>2 / (v_max - v_min)\<close> in \<open>acc_sensitivity\<close>, and when they
  are equal the division raises \<open>ZeroDivisionError\<close> and the sensitivity of the axis
  stays \<open>0\<close>. What is stored for an axis is still on the object when a later axis
  raises.
\<close>

theorem six_point_axis:
  assumes "index < 3"
    and "\<forall>j\<le>index. length (six_point_mean c j (- 1)) = 3 \<and> length (six_point_mean c j 1) = 3"
    and "\<forall>j<index. six_point_mean c j (- 1) ! j \<noteq> six_point_mean c j 1 ! j"
  shows "\<exists>zero sens.
           acc_zero_g (fst (do_six_point_one_g_calibration c self)) = Some zero \<and>
           acc_sensitivity (fst (do_six_point_one_g_calibration c self)) = Some sens \<and>
           length zero = 3 \<and> length sens = 3 \<and>
           zero ! index =
             (max (six_point_mean c index (- 1) ! index) (six_point_mean c index 1 ! index) +
              min (six_point_mean c index (- 1) ! index) (six_point_mean c index 1 ! index)) / 2 \<and>
           (if six_point_mean c index (- 1) ! index = six_point_mean c index 1 ! index
            then sens ! index = 0 \<and>
                 snd (do_six_point_one_g_calibration c self) = Inl ZeroDivisionError
            else sens ! index =
                 2 / (max (six_point_mean c index (- 1) ! index) (six_point_mean c index 1 ! index) -
                      min (six_point_mean c index (- 1) ! index) (six_point_mean c index 1 ! index)))"
proof -
  let ?lo = "\<lambda>j. six_point_mean c j (- 1) ! j"
  let ?hi = "\<lambda>j. six_point_mean c j 1 ! j"
  let ?z = "\<lambda>j. (max (?lo j) (?hi j) + min (?lo j) (?hi j)) / 2"
  let ?s = "\<lambda>j. 2 / (max (?lo j) (?hi j) - min (?lo j) (?hi j))"
  have axes: "six_point_axes c [0, 1, 2] [0, 0, 0] [0, 0, 0] [] =
      (if ?lo 0 = ?hi 0 then ([?z 0, 0, 0], [0, 0, 0], Inl ZeroDivisionError)
       else if ?lo 1 = ?hi 1 then ([?z 0, ?z 1, 0], [?s 0, 0, 0], Inl ZeroDivisionError)
       else if ?lo 2 = ?hi 2 then ([?z 0, ?z 1, ?z 2], [?s 0, ?s 1, 0], Inl ZeroDivisionError)
       else ([?z 0, ?z 1, ?z 2], [?s 0, ?s 1, ?s 2],
             Inr [six_point_mean c 0 (- 1), six_point_mean c 0 1, six_point_mean c 1 (- 1),
                  six_point_mean c 1 1, six_point_mean c 2 (- 1), six_point_mean c 2 1]))"
    by (simp add: Let_def max_min_same)
  from less3_cases [OF assms(1)] show ?thesis
  proof (elim disjE)
    assume i: "index = 0"
    show ?thesis
      unfolding i by (simp only: do_six_point_one_g_calibration_def axes) simp
  next
    assume i: "index = 1"
    with assms(3) have d0: "?lo 0 \<noteq> ?hi 0" by simp
    show ?thesis
      unfolding i using d0 by (simp only: do_six_point_one_g_calibration_def axes) simp
  next
    assume i: "index = 2"
    with assms(3) have d: "?lo 0 \<noteq> ?hi 0" "?lo 1 \<noteq> ?hi 1"
      by (simp_all add: less_Suc_eq eval_nat_numeral)
    show ?thesis
      unfolding i using d by (simp only: do_six_point_one_g_calibration_def axes) simp
  qed
qed

text \<open>
  The two examples of the claim: readings \<open>-1000\<close> and \<open>1000\<close> give zero \<open>0\<close> and
  sensitivity \<open>1 / 1000\<close>; readings \<open>1200\<close> and \<open>-800\<close> give zero \<open>200\<close> and
  sensitivity \<open>1 / 1000\<close>.
\<close>

theorem six_point_axis_witness:
  "(\<exists>zero sens.
      acc_zero_g (fst (do_six_point_one_g_calibration bench fresh)) = Some zero \<and>
      acc_sensitivity (fst (do_six_point_one_g_calibration bench fresh)) = Some sens \<and>
      zero ! 0 = 0 \<and> sens ! 0 = 1 / 1000) \<and>
   (\<exists>zero sens.
      acc_zero_g (fst (do_six_point_one_g_calibration bench fresh)) = Some zero \<and>
      acc_sensitivity (fst (do_six_point_one_g_calibration bench fresh)) = Some sens \<and>
      zero ! 1 = 200 \<and> sens ! 1 = 1 / 1000)"
proof -
  define pass where "pass = do_six_point_one_g_calibration bench fresh"
  have i0: "(0::nat) < 3" and i1: "(1::nat) < 3" by simp_all
  have s0: "\<forall>j\<le>0. length (six_point_mean bench j (- 1)) = 3 \<and> length (six_point_mean bench j 1) = 3"
    by (simp add: bench_def)
  have s1: "\<forall>j\<le>1. length (six_point_mean bench j (- 1)) = 3 \<and> length (six_point_mean bench j 1) = 3"
    by (simp add: bench_def)
  have d0: "\<forall>j<0. six_point_mean bench j (- 1) ! j \<noteq> six_point_mean bench j 1 ! j"
    by simp
  have d1: "\<forall>j<1. six_point_mean bench j (- 1) ! j \<noteq> six_point_mean bench j 1 ! j"
    by (simp add: bench_def)
  have v0: "six_point_mean bench 0 (- 1) ! 0 = - 1000" "six_point_mean bench 0 1 ! 0 = 1000"
    and v1: "six_point_mean bench 1 (- 1) ! 1 = 1200" "six_point_mean bench 1 1 ! 1 = - 800"
    by (simp_all add: bench_def)
  from six_point_axis [OF i0 s0 d0, of fresh] obtain zero sens where
    "acc_zero_g (fst pass) = Some zero" "acc_sensitivity (fst pass) = Some sens"
    "zero ! 0 = (max (- 1000) 1000 + min (- 1000) 1000) / 2"
    "sens ! 0 = 2 / (max (- 1000) 1000 - min (- 1000) 1000)"
    unfolding v0 pass_def [symmetric] by auto
  then have a: "\<exists>zero sens.
      acc_zero_g (fst pass) = Some zero \<and> acc_sensitivity (fst pass) = Some sens \<and>
      zero ! 0 = 0 \<and> sens ! 0 = 1 / 1000"
    by simp
  from six_point_axis [OF i1 s1 d1, of fresh] obtain zero sens where
    "acc_zero_g (fst pass) = Some zero" "acc_sensitivity (fst pass) = Some sens"
    "zero ! 1 = (max 1200 (- 800) + min 1200 (- 800)) / 2"
    "sens ! 1 = 2 / (max 1200 (- 800) - min 1200 (- 800))"
    unfolding v1 pass_def [symmetric] by auto
  then have b: "\<exists>zero sens.
      acc_zero_g (fst pass) = Some zero \<and> acc_sensitivity (fst pass) = Some sens \<and>
      zero ! 1 = 200 \<and> sens ! 1 = 1 / 1000"
    by simp
  from a b show ?thesis unfolding pass_def by blast
qed

text \<open>
  The claim as written gives sensitivity \<open>0.002\<close> for the readings \<open>-1000\<close> and
  \<open>1000\<close>, where the pass computes \<open>2 / 2000\<close>. It also gives every axis a
  sensitivity: when the two x readings are equal the pass raises on the x axis, with no
  sensitivity stored, and the y axis, whose readings differ, is never processed.
\<close>

theorem six_point_example_counterexample:
  "acc_sensitivity (fst (do_six_point_one_g_calibration bench fresh)) =
     Some [1 / 1000, 1 / 1000, 1 / 400] \<and> (1 / 1000 :: real) \<noteq> 2 / 1000 \<and>
   do_six_point_one_g_calibration stuck fresh =
     (fresh\<lparr>acc_zero_g := Some [1000, 0, 0], acc_sensitivity := Some [0, 0, 0]\<rparr>,
      Inl ZeroDivisionError)"
  by (simp add: do_six_point_one_g_calibration_def bench_def stuck_def Let_def)

subsection \<open>The forward transform\<close>

text \<open>
  Claim C9. On an object whose four parameters are set, with vectors of three components
  and a matrix of three rows of three, the transform of a raw reading returns the vector
  whose component \<open>i\<close> is the sum over \<open>j\<close> of
  \<open>M[i][j] * ((raw[j] - zero[j]) * sensitivity[j] - B[j])\<close>.
\<close>

theorem transform_formula:
  assumes "acc_zero_g self = Some zero" and "acc_sensitivity self = Some sens"
    and "acc_scale_factor_matrix self = Some M" and "acc_bias_vector self = Some B"
    and "length zero = 3" and "length sens = 3" and "length B = 3" and "length raw = 3"
    and "length M = 3" and "\<forall>row \<in> set M. length row = 3"
  shows "\<exists>g. transform_accelerometer_values self raw = Inr g \<and> length g = 3 \<and>
           (\<forall>i < 3. g ! i = (\<Sum>j < 3. M ! i ! j * ((raw ! j - zero ! j) * sens ! j - B ! j)))"
proof -
  obtain z0 z1 z2 where z: "zero = [z0, z1, z2]" using assms(5) length3_explicit by blast
  obtain s0 s1 s2 where s: "sens = [s0, s1, s2]" using assms(6) length3_explicit by blast
  obtain b0 b1 b2 where b: "B = [b0, b1, b2]" using assms(7) length3_explicit by blast
  obtain r0 r1 r2 where r: "raw = [r0, r1, r2]" using assms(8) length3_explicit by blast
  obtain R0 R1 R2 where m: "M = [R0, R1, R2]"
    using assms(9) by (auto simp: length_Suc_conv eval_nat_numeral)
  from assms(10) m have "length R0 = 3" "length R1 = 3" "length R2 = 3" by simp_all
  then obtain m00 m01 m02 m10 m11 m12 m20 m21 m22 where
    rows: "R0 = [m00, m01, m02]" "R1 = [m10, m11, m12]" "R2 = [m20, m21, m22]"
    using length3_explicit by metis
  show ?thesis
    using assms(1-4)
    by (simp add: transform_accelerometer_values_def z s b r m rows mat_vec_def vdot_def
        vsub_def vmul_def all_less3 lessThan_nat_numeral lessThan_Suc)
qed

theorem transform_formula_witness:
  "transform_accelerometer_values
     (calibrated\<lparr>acc_scale_factor_matrix := Some [[2, 0, 0], [0, 1, 1], [0, 0, 1]],
                 acc_bias_vector := Some [1, 0, 0]\<rparr>) [1000, 1200, 500] = Inr [0, 2, 1]"
proof -
  let ?self = "calibrated\<lparr>acc_scale_factor_matrix := Some [[2, 0, 0], [0, 1, 1], [0, 0, 1]],
                 acc_bias_vector := Some [1, 0, 0]\<rparr>"
  have "\<exists>g. transform_accelerometer_values ?self [1000, 1200, 500] = Inr g \<and> length g = 3 \<and>
           (\<forall>i < 3. g ! i = (\<Sum>j < 3. [[2, 0, 0], [0, 1, 1], [0, 0, 1]] ! i ! j *
               (([1000, 1200, 500] ! j - [0, 200, 100] ! j) * [1 / 1000, 1 / 1000, 1 / 400] ! j - [1, 0, 0] ! j)))"
    by (rule transform_formula) (simp_all add: calibrated_def fresh_def)
  then obtain g where g: "transform_accelerometer_values ?self [1000, 1200, 500] = Inr g"
    and l: "length g = 3"
    and v: "\<forall>i < 3. g ! i = (\<Sum>j < 3. [[2, 0, 0], [0, 1, 1], [0, 0, 1]] ! i ! j *
               (([1000, 1200, 500] ! j - [0, 200, 100] ! j) * [1 / 1000, 1 / 1000, 1 / 400] ! j - [1, 0, 0] ! j))"
    by blast
  from l obtain g0 g1 g2 where "g = [g0, g1, g2]" using length3_explicit by blast
  with v have "g = [0, 2, 1]"
    by (simp add: all_less3 lessThan_nat_numeral lessThan_Suc)
  with g show ?thesis by simp
qed

subsection \<open>Rejections\<close>

text \<open>
  Claim C7. Called with fewer than nine points, the solver raises the \<open>ValueError\<close>
  that reports the missing measurements, whatever the points are, and leaves the object
  as it was: the check is the first thing it does, ahead of the loop that computes
  residuals and Jacobian rows and inverts.
\<close>

theorem insufficient_points_rejected:
  assumes "length points < 9"
  shows "perform_calibration_optimisation self points =
           (self, Some (ValueError ''Need at least 9 Measurements for the calibration procedure!''))"
  using assms by (simp add: perform_calibration_optimisation_def)

theorem insufficient_points_rejected_witness:
  "length [[1, 0, 0], [0, 1, 0 :: real]] < 9 \<and>
   perform_calibration_optimisation fresh [[1, 0, 0], [0, 1, 0]] =
     (fresh, Some (ValueError ''Need at least 9 Measurements for the calibration procedure!''))"
  using insufficient_points_rejected [of "[[1, 0, 0], [0, 1, 0]]" fresh]
  by simp

text \<open>
  Claim C8. On an object whose \<open>acc_zero_g\<close> is set, \<open>calibrate_accelerometer\<close> raises
  \<open>PyBerryIMUError\<close> at once and the object, with its zero, sensitivity, matrix and bias,
  is unchanged.
\<close>

theorem already_calibrated_rejected:
  assumes "acc_zero_g self \<noteq> None"
  shows "calibrate_accelerometer c self =
           (self, Some (PyBerryIMUError ''This object has already been calibrated!''))"
  using assms by (simp add: calibrate_accelerometer_def)

theorem already_calibrated_rejected_witness:
  "acc_zero_g calibrated \<noteq> None \<and>
   calibrate_accelerometer bench calibrated =
     (calibrated, Some (PyBerryIMUError ''This object has already been calibrated!''))"
proof -
  have h: "acc_zero_g calibrated \<noteq> None" by (simp add: calibrated_def)
  from already_calibrated_rejected [OF h, of bench] h show ?thesis by simp
qed

subsection \<open>Iterations on the two point sets\<close>

text \<open>
  An iteration is evaluated in stages: the Jacobian matrix and the residuals at the
  initial guess, the normal matrix, its inverse (with the check that it is the inverse),
  the gradient, the updated vector and the verdict of the convergence criterion.
\<close>

lemma identity_9:
  "identity 9 =
    [[1, 0, 0, 0, 0, 0, 0, 0, 0], [0, 1, 0, 0, 0, 0, 0, 0, 0], [0, 0, 1, 0, 0, 0, 0, 0, 0],
     [0, 0, 0, 1, 0, 0, 0, 0, 0], [0, 0, 0, 0, 1, 0, 0, 0, 0], [0, 0, 0, 0, 0, 1, 0, 0, 0],
     [0, 0, 0, 0, 0, 0, 1, 0, 0], [0, 0, 0, 0, 0, 0, 0, 1, 0], [0, 0, 0, 0, 0, 0, 0, 0, 1]]"
  by (simp add: identity_def upt_rec)

lemma shrunk_J: "map (\<lambda>point. jacobian [[5, 1 / 2, 1 / 2], [1 / 2, 5, 1 / 2], [1 / 2, 1 / 2, 5]] [1 / 2, 1 / 2, 1 / 2] point) shrunk =
  [[10, 1, 1, 0, 0, 0, 51, 21 / 2, 21 / 2],
   [10, 1, 1, 0, 0, 0, - 51, - (21 / 2), - (21 / 2)],
   [0, 1, 0, 10, 1, 0, 21 / 2, 51, 21 / 2],
   [0, 1, 0, 10, 1, 0, - (21 / 2), - 51, - (21 / 2)],
   [0, 0, 1, 0, 1, 10, 21 / 2, 21 / 2, 51],
   [0, 0, 1, 0, 1, 10, - (21 / 2), - (21 / 2), - 51],
   [9, - 18, 0, 9, 0, 0, 81 / 2, - (81 / 2), 0],
   [9, - 18, 0, 9, 0, 0, - (81 / 2), 81 / 2, 0],
   [9, 0, - 18, 0, 0, 9, 81 / 2, 0, - (81 / 2)],
   [9, 0, - 18, 0, 0, 9, - (81 / 2), 0, 81 / 2],
   [0, 0, 0, 9, - 18, 9, 0, 81 / 2, - (81 / 2)],
   [0, 0, 0, 9, - 18, 9, 0, - (81 / 2), 81 / 2]]"
  by (simp add: shrunk_def jacobian_def)

lemma shrunk_R: "map (\<lambda>point. error_function [[5, 1 / 2, 1 / 2], [1 / 2, 5, 1 / 2], [1 / 2, 1 / 2, 5]] [1 / 2, 1 / 2, 1 / 2] point) shrunk =
  [49 / 2, 49 / 2, 49 / 2, 49 / 2, 49 / 2, 49 / 2, 79 / 2, 79 / 2, 79 / 2, 79 / 2, 79 / 2, 79 / 2]"
  by (simp add: shrunk_def error_function_def mat_vec_def vdot_def vsub_def power2_eq_square)

lemma shrunk_A: "mat_mul (transpose
  [[10, 1, 1, 0, 0, 0, 51, 21 / 2, 21 / 2],
   [10, 1, 1, 0, 0, 0, - 51, - (21 / 2), - (21 / 2)],
   [0, 1, 0, 10, 1, 0, 21 / 2, 51, 21 / 2],
   [0, 1, 0, 10, 1, 0, - (21 / 2), - 51, - (21 / 2)],
   [0, 0, 1, 0, 1, 10, 21 / 2, 21 / 2, 51],
   [0, 0, 1, 0, 1, 10, - (21 / 2), - (21 / 2), - 51],
   [9, - 18, 0, 9, 0, 0, 81 / 2, - (81 / 2), 0],
   [9, - 18, 0, 9, 0, 0, - (81 / 2), 81 / 2, 0],
   [9, 0, - 18, 0, 0, 9, 81 / 2, 0, - (81 / 2)],
   [9, 0, - 18, 0, 0, 9, - (81 / 2), 0, 81 / 2],
   [0, 0, 0, 9, - 18, 9, 0, 81 / 2, - (81 / 2)],
   [0, 0, 0, 9, - 18, 9, 0, - (81 / 2), 81 / 2]])
  [[10, 1, 1, 0, 0, 0, 51, 21 / 2, 21 / 2],
   [10, 1, 1, 0, 0, 0, - 51, - (21 / 2), - (21 / 2)],
   [0, 1, 0, 10, 1, 0, 21 / 2, 51, 21 / 2],
   [0, 1, 0, 10, 1, 0, - (21 / 2), - 51, - (21 / 2)],
   [0, 0, 1, 0, 1, 10, 21 / 2, 21 / 2, 51],
   [0, 0, 1, 0, 1, 10, - (21 / 2), - (21 / 2), - 51],
   [9, - 18, 0, 9, 0, 0, 81 / 2, - (81 / 2), 0],
   [9, - 18, 0, 9, 0, 0, - (81 / 2), 81 / 2, 0],
   [9, 0, - 18, 0, 0, 9, 81 / 2, 0, - (81 / 2)],
   [9, 0, - 18, 0, 0, 9, - (81 / 2), 0, 81 / 2],
   [0, 0, 0, 9, - 18, 9, 0, 81 / 2, - (81 / 2)],
   [0, 0, 0, 9, - 18, 9, 0, - (81 / 2), 81 / 2]] =
  [[524, - 304, - 304, 162, 0, 162, 0, 0, 0],
   [- 304, 652, 2, - 304, 2, 0, 0, 0, 0],
   [- 304, 2, 652, 0, 2, - 304, 0, 0, 0],
   [162, - 304, 0, 524, - 304, 162, 0, 0, 0],
   [0, 2, 2, - 304, 652, - 304, 0, 0, 0],
   [162, 0, - 304, 162, - 304, 524, 0, 0, 0],
   [0, 0, 0, 0, 0, 0, 12204, - 918, - 918],
   [0, 0, 0, 0, 0, 0, - 918, 12204, - 918],
   [0, 0, 0, 0, 0, 0, - 918, - 918, 12204]]"
  by (simp add: mat_mul_def vec_mat_def vdot_def)

lemma shrunk_H: "linalg_inv
  [[524, - 304, - 304, 162, 0, 162, 0, 0, 0],
   [- 304, 652, 2, - 304, 2, 0, 0, 0, 0],
   [- 304, 2, 652, 0, 2, - 304, 0, 0, 0],
   [162, - 304, 0, 524, - 304, 162, 0, 0, 0],
   [0, 2, 2, - 304, 652, - 304, 0, 0, 0],
   [162, 0, - 304, 162, - 304, 524, 0, 0, 0],
   [0, 0, 0, 0, 0, 0, 12204, - 918, - 918],
   [0, 0, 0, 0, 0, 0, - 918, 12204, - 918],
   [0, 0, 0, 0, 0, 0, - 918, - 918, 12204]] = Inr
  [[89 / 21168, 19 / 10584, 19 / 10584, - (197 / 571536), - (95 / 285768), - (197 / 571536), 0, 0, 0],
   [19 / 10584, 1831 / 571536, 383 / 571536, 19 / 10584, 383 / 571536, - (95 / 285768), 0, 0, 0],
   [19 / 10584, 383 / 571536, 1831 / 571536, - (95 / 285768), 383 / 571536, 19 / 10584, 0, 0, 0],
   [- (197 / 571536), 19 / 10584, - (95 / 285768), 89 / 21168, 19 / 10584, - (197 / 571536), 0, 0, 0],
   [- (95 / 285768), 383 / 571536, 383 / 571536, 19 / 10584, 1831 / 571536, 19 / 10584, 0, 0, 0],
   [- (197 / 571536), - (95 / 285768), 19 / 10584, - (197 / 571536), 19 / 10584, 89 / 21168, 0, 0, 0],
   [0, 0, 0, 0, 0, 0, 209 / 2519424, 17 / 2519424, 17 / 2519424],
   [0, 0, 0, 0, 0, 0, 17 / 2519424, 209 / 2519424, 17 / 2519424],
   [0, 0, 0, 0, 0, 0, 17 / 2519424, 17 / 2519424, 209 / 2519424]]"
  by (simp add: linalg_inv_def identity_def eliminate_def)

lemma shrunk_H_inverse: "mat_mul
  [[524, - 304, - 304, 162, 0, 162, 0, 0, 0],
   [- 304, 652, 2, - 304, 2, 0, 0, 0, 0],
   [- 304, 2, 652, 0, 2, - 304, 0, 0, 0],
   [162, - 304, 0, 524, - 304, 162, 0, 0, 0],
   [0, 2, 2, - 304, 652, - 304, 0, 0, 0],
   [162, 0, - 304, 162, - 304, 524, 0, 0, 0],
   [0, 0, 0, 0, 0, 0, 12204, - 918, - 918],
   [0, 0, 0, 0, 0, 0, - 918, 12204, - 918],
   [0, 0, 0, 0, 0, 0, - 918, - 918, 12204]]
  [[89 / 21168, 19 / 10584, 19 / 10584, - (197 / 571536), - (95 / 285768), - (197 / 571536), 0, 0, 0],
   [19 / 10584, 1831 / 571536, 383 / 571536, 19 / 10584, 383 / 571536, - (95 / 285768), 0, 0, 0],
   [19 / 10584, 383 / 571536, 1831 / 571536, - (95 / 285768), 383 / 571536, 19 / 10584, 0, 0, 0],
   [- (197 / 571536), 19 / 10584, - (95 / 285768), 89 / 21168, 19 / 10584, - (197 / 571536), 0, 0, 0],
   [- (95 / 285768), 383 / 571536, 383 / 571536, 19 / 10584, 1831 / 571536, 19 / 10584, 0, 0, 0],
   [- (197 / 571536), - (95 / 285768), 19 / 10584, - (197 / 571536), 19 / 10584, 89 / 21168, 0, 0, 0],
   [0, 0, 0, 0, 0, 0, 209 / 2519424, 17 / 2519424, 17 / 2519424],
   [0, 0, 0, 0, 0, 0, 17 / 2519424, 209 / 2519424, 17 / 2519424],
   [0, 0, 0, 0, 0, 0, 17 / 2519424, 17 / 2519424, 209 / 2519424]] = identity 9"
  by (simp add: mat_mul_def vec_mat_def vdot_def identity_9)

lemma shrunk_D: "mat_vec (transpose
  [[10, 1, 1, 0, 0, 0, 51, 21 / 2, 21 / 2],
   [10, 1, 1, 0, 0, 0, - 51, - (21 / 2), - (21 / 2)],
   [0, 1, 0, 10, 1, 0, 21 / 2, 51, 21 / 2],
   [0, 1, 0, 10, 1, 0, - (21 / 2), - 51, - (21 / 2)],
   [0, 0, 1, 0, 1, 10, 21 / 2, 21 / 2, 51],
   [0, 0, 1, 0, 1, 10, - (21 / 2), - (21 / 2), - 51],
   [9, - 18, 0, 9, 0, 0, 81 / 2, - (81 / 2), 0],
   [9, - 18, 0, 9, 0, 0, - (81 / 2), 81 / 2, 0],
   [9, 0, - 18, 0, 0, 9, 81 / 2, 0, - (81 / 2)],
   [9, 0, - 18, 0, 0, 9, - (81 / 2), 0, 81 / 2],
   [0, 0, 0, 9, - 18, 9, 0, 81 / 2, - (81 / 2)],
   [0, 0, 0, 9, - 18, 9, 0, - (81 / 2), 81 / 2]])
  [49 / 2, 49 / 2, 49 / 2, 49 / 2, 49 / 2, 49 / 2, 79 / 2, 79 / 2, 79 / 2, 79 / 2, 79 / 2, 79 / 2] =
  [1912, - 1324, - 1324, 1912, - 1324, 1912, 0, 0, 0]"
  by (simp add: mat_vec_def vdot_def)

lemma shrunk_x: "vsub x_init (vscale 1 (vec_mat
  [1912, - 1324, - 1324, 1912, - 1324, 1912, 0, 0, 0]
  [[89 / 21168, 19 / 10584, 19 / 10584, - (197 / 571536), - (95 / 285768), - (197 / 571536), 0, 0, 0],
   [19 / 10584, 1831 / 571536, 383 / 571536, 19 / 10584, 383 / 571536, - (95 / 285768), 0, 0, 0],
   [19 / 10584, 383 / 571536, 1831 / 571536, - (95 / 285768), 383 / 571536, 19 / 10584, 0, 0, 0],
   [- (197 / 571536), 19 / 10584, - (95 / 285768), 89 / 21168, 19 / 10584, - (197 / 571536), 0, 0, 0],
   [- (95 / 285768), 383 / 571536, 383 / 571536, 19 / 10584, 1831 / 571536, 19 / 10584, 0, 0, 0],
   [- (197 / 571536), - (95 / 285768), 19 / 10584, - (197 / 571536), 19 / 10584, 89 / 21168, 0, 0, 0],
   [0, 0, 0, 0, 0, 0, 209 / 2519424, 17 / 2519424, 17 / 2519424],
   [0, 0, 0, 0, 0, 0, 17 / 2519424, 209 / 2519424, 17 / 2519424],
   [0, 0, 0, 0, 0, 0, 17 / 2519424, 17 / 2519424, 209 / 2519424]])) =
  [70 / 27, 31 / 108, 31 / 108, 70 / 27, 31 / 108, 70 / 27, 1 / 2, 1 / 2, 1 / 2]"
  by (simp add: x_init_def vsub_def vscale_def vec_mat_def vdot_def)

lemma shrunk_converged: "converged
  [70 / 27, 31 / 108, 31 / 108, 70 / 27, 31 / 108, 70 / 27, 1 / 2, 1 / 2, 1 / 2] x_init = Inr True"
  by (simp add: converged_def relative_change_def x_init_def vscale_def vsub_def vadd_def
      np_divide_def py_max_def tolerance_def)

lemma shrunk_first_iteration:
  "gauss_newton (Suc n) shrunk x_init x_init 1 100000 =
     Inr (Some ([[70 / 27, 31 / 108, 31 / 108], [31 / 108, 70 / 27, 31 / 108], [31 / 108, 31 / 108, 70 / 27]],
                [1 / 2, 1 / 2, 1 / 2]))"
proof -
  have o: "optvec_to_M_and_b x_init = ([[5, 1 / 2, 1 / 2], [1 / 2, 5, 1 / 2], [1 / 2, 1 / 2, 5]], [1 / 2, 1 / 2, 1 / 2])"
    by (simp add: optvec_to_M_and_b_def x_init_def)
  have n: "optvec_to_M_and_b [70 / 27, 31 / 108, 31 / 108, 70 / 27, 31 / 108, 70 / 27, 1 / 2, 1 / 2, 1 / 2] =
      ([[70 / 27, 31 / 108, 31 / 108], [31 / 108, 70 / 27, 31 / 108], [31 / 108, 31 / 108, 70 / 27]], [1 / 2, 1 / 2, 1 / 2])"
    by (simp add: optvec_to_M_and_b_def)
  show ?thesis
    by (simp only: gauss_newton.simps(2) [of n shrunk x_init] o n prod.case Let_def sum.case bool.case
        shrunk_J shrunk_R shrunk_A shrunk_H shrunk_D shrunk_x shrunk_converged)
qed

lemma stalled_J0: "map (\<lambda>point. jacobian [[5, 1 / 2, 1 / 2], [1 / 2, 5, 1 / 2], [1 / 2, 1 / 2, 5]] [1 / 2, 1 / 2, 1 / 2] point) stalled =
  [[40, 4, 4, 0, 0, 0, 102, 21, 21],
   [40, 4, 4, 0, 0, 0, - 102, - 21, - 21],
   [0, 4, 0, 40, 4, 0, 21, 102, 21],
   [0, 4, 0, 40, 4, 0, - 21, - 102, - 21],
   [0, 0, 4, 0, 4, 40, 21, 21, 102],
   [0, 0, 4, 0, 4, 40, - 21, - 21, - 102],
   [9 / 256, - (9 / 128), 0, 9 / 256, 0, 0, 81 / 32, - (81 / 32), 0],
   [9 / 256, - (9 / 128), 0, 9 / 256, 0, 0, - (81 / 32), 81 / 32, 0],
   [9 / 256, 0, - (9 / 128), 0, 0, 9 / 256, 81 / 32, 0, - (81 / 32)],
   [9 / 256, 0, - (9 / 128), 0, 0, 9 / 256, - (81 / 32), 0, 81 / 32],
   [0, 0, 0, 9 / 256, - (9 / 128), 9 / 256, 0, 81 / 32, - (81 / 32)],
   [0, 0, 0, 9 / 256, - (9 / 128), 9 / 256, 0, - (81 / 32), 81 / 32]]"
  by (simp add: stalled_def jacobian_def)

lemma stalled_R0: "map (\<lambda>point. error_function [[5, 1 / 2, 1 / 2], [1 / 2, 5, 1 / 2], [1 / 2, 1 / 2, 5]] [1 / 2, 1 / 2, 1 / 2] point) stalled =
  [101, 101, 101, 101, 101, 101, - (431 / 512), - (431 / 512), - (431 / 512), - (431 / 512), - (431 / 512), - (431 / 512)]"
  by (simp add: stalled_def error_function_def mat_vec_def vdot_def vsub_def power2_eq_square)

lemma stalled_A0: "mat_mul (transpose
  [[40, 4, 4, 0, 0, 0, 102, 21, 21],
   [40, 4, 4, 0, 0, 0, - 102, - 21, - 21],
   [0, 4, 0, 40, 4, 0, 21, 102, 21],
   [0, 4, 0, 40, 4, 0, - 21, - 102, - 21],
   [0, 0, 4, 0, 4, 40, 21, 21, 102],
   [0, 0, 4, 0, 4, 40, - 21, - 21, - 102],
   [9 / 256, - (9 / 128), 0, 9 / 256, 0, 0, 81 / 32, - (81 / 32), 0],
   [9 / 256, - (9 / 128), 0, 9 / 256, 0, 0, - (81 / 32), 81 / 32, 0],
   [9 / 256, 0, - (9 / 128), 0, 0, 9 / 256, 81 / 32, 0, - (81 / 32)],
   [9 / 256, 0, - (9 / 128), 0, 0, 9 / 256, - (81 / 32), 0, 81 / 32],
   [0, 0, 0, 9 / 256, - (9 / 128), 9 / 256, 0, 81 / 32, - (81 / 32)],
   [0, 0, 0, 9 / 256, - (9 / 128), 9 / 256, 0, - (81 / 32), 81 / 32]])
  [[40, 4, 4, 0, 0, 0, 102, 21, 21],
   [40, 4, 4, 0, 0, 0, - 102, - 21, - 21],
   [0, 4, 0, 40, 4, 0, 21, 102, 21],
   [0, 4, 0, 40, 4, 0, - 21, - 102, - 21],
   [0, 0, 4, 0, 4, 40, 21, 21, 102],
   [0, 0, 4, 0, 4, 40, - 21, - 21, - 102],
   [9 / 256, - (9 / 128), 0, 9 / 256, 0, 0, 81 / 32, - (81 / 32), 0],
   [9 / 256, - (9 / 128), 0, 9 / 256, 0, 0, - (81 / 32), 81 / 32, 0],
   [9 / 256, 0, - (9 / 128), 0, 0, 9 / 256, 81 / 32, 0, - (81 / 32)],
   [9 / 256, 0, - (9 / 128), 0, 0, 9 / 256, - (81 / 32), 0, 81 / 32],
   [0, 0, 0, 9 / 256, - (9 / 128), 9 / 256, 0, 81 / 32, - (81 / 32)],
   [0, 0, 0, 9 / 256, - (9 / 128), 9 / 256, 0, - (81 / 32), 81 / 32]] =
  [[52428881 / 16384, 5242799 / 16384, 5242799 / 16384, 81 / 32768, 0, 81 / 32768, 0, 0, 0],
   [5242799 / 16384, 524369 / 8192, 32, 5242799 / 16384, 32, 0, 0, 0, 0],
   [5242799 / 16384, 32, 524369 / 8192, 0, 32, 5242799 / 16384, 0, 0, 0],
   [81 / 32768, 5242799 / 16384, 0, 52428881 / 16384, 5242799 / 16384, 81 / 32768, 0, 0, 0],
   [0, 32, 32, 5242799 / 16384, 524369 / 8192, 5242799 / 16384, 0, 0, 0],
   [81 / 32768, 0, 5242799 / 16384, 81 / 32768, 5242799 / 16384, 52428881 / 16384, 0, 0, 0],
   [0, 0, 0, 0, 0, 0, 5784993 / 256, 4831839 / 512, 4831839 / 512],
   [0, 0, 0, 0, 0, 0, 4831839 / 512, 5784993 / 256, 4831839 / 512],
   [0, 0, 0, 0, 0, 0, 4831839 / 512, 4831839 / 512, 5784993 / 256]]"
  by (simp add: mat_mul_def vec_mat_def vdot_def)

lemma stalled_H0: "linalg_inv
  [[52428881 / 16384, 5242799 / 16384, 5242799 / 16384, 81 / 32768, 0, 81 / 32768, 0, 0, 0],
   [5242799 / 16384, 524369 / 8192, 32, 5242799 / 16384, 32, 0, 0, 0, 0],
   [5242799 / 16384, 32, 524369 / 8192, 0, 32, 5242799 / 16384, 0, 0, 0],
   [81 / 32768, 5242799 / 16384, 0, 52428881 / 16384, 5242799 / 16384, 81 / 32768, 0, 0, 0],
   [0, 32, 32, 5242799 / 16384, 524369 / 8192, 5242799 / 16384, 0, 0, 0],
   [81 / 32768, 0, 5242799 / 16384, 81 / 32768, 5242799 / 16384, 52428881 / 16384, 0, 0, 0],
   [0, 0, 0, 0, 0, 0, 5784993 / 256, 4831839 / 512, 4831839 / 512],
   [0, 0, 0, 0, 0, 0, 4831839 / 512, 5784993 / 256, 4831839 / 512],
   [0, 0, 0, 0, 0, 0, 4831839 / 512, 4831839 / 512, 5784993 / 256]] = Inr
  [[1048753 / 677376, - (5242799 / 677376), - (5242799 / 677376), 11533931 / 18289152, 26213995 / 18289152, 11533931 / 18289152, 0, 0, 0],
   [- (5242799 / 677376), 1546651787 / 18289152, - (131071109 / 18289152), - (5242799 / 677376), - (131071109 / 18289152), 26213995 / 18289152, 0, 0, 0],
   [- (5242799 / 677376), - (131071109 / 18289152), 1546651787 / 18289152, 26213995 / 18289152, - (131071109 / 18289152), - (5242799 / 677376), 0, 0, 0],
   [11533931 / 18289152, - (5242799 / 677376), 26213995 / 18289152, 1048753 / 677376, - (5242799 / 677376), 11533931 / 18289152, 0, 0, 0],
   [26213995 / 18289152, - (131071109 / 18289152), - (131071109 / 18289152), - (5242799 / 677376), 1546651787 / 18289152, - (5242799 / 677376), 0, 0, 0],
   [11533931 / 18289152, 26213995 / 18289152, - (5242799 / 677376), 11533931 / 18289152, - (5242799 / 677376), 1048753 / 677376, 0, 0, 0],
   [0, 0, 0, 0, 0, 0, 607475 / 10349793792, - (178957 / 10349793792), - (178957 / 10349793792)],
   [0, 0, 0, 0, 0, 0, - (178957 / 10349793792), 607475 / 10349793792, - (178957 / 10349793792)],
   [0, 0, 0, 0, 0, 0, - (178957 / 10349793792), - (178957 / 10349793792), 607475 / 10349793792]]"
  by (simp add: linalg_inv_def identity_def eliminate_def)

lemma stalled_D0: "mat_vec (transpose
  [[40, 4, 4, 0, 0, 0, 102, 21, 21],
   [40, 4, 4, 0, 0, 0, - 102, - 21, - 21],
   [0, 4, 0, 40, 4, 0, 21, 102, 21],
   [0, 4, 0, 40, 4, 0, - 21, - 102, - 21],
   [0, 0, 4, 0, 4, 40, 21, 21, 102],
   [0, 0, 4, 0, 4, 40, - 21, - 21, - 102],
   [9 / 256, - (9 / 128), 0, 9 / 256, 0, 0, 81 / 32, - (81 / 32), 0],
   [9 / 256, - (9 / 128), 0, 9 / 256, 0, 0, - (81 / 32), 81 / 32, 0],
   [9 / 256, 0, - (9 / 128), 0, 0, 9 / 256, 81 / 32, 0, - (81 / 32)],
   [9 / 256, 0, - (9 / 128), 0, 0, 9 / 256, - (81 / 32), 0, 81 / 32],
   [0, 0, 0, 9 / 256, - (9 / 128), 9 / 256, 0, 81 / 32, - (81 / 32)],
   [0, 0, 0, 9 / 256, - (9 / 128), 9 / 256, 0, - (81 / 32), 81 / 32]])
  [101, 101, 101, 101, 101, 101, - (431 / 512), - (431 / 512), - (431 / 512), - (431 / 512), - (431 / 512), - (431 / 512)] =
  [264761561 / 32768, 52956967 / 32768, 52956967 / 32768, 264761561 / 32768, 52956967 / 32768, 264761561 / 32768, 0, 0, 0]"
  by (simp add: mat_vec_def vdot_def)

lemma stalled_x0: "vsub x_init (vscale 1 (vec_mat
  [264761561 / 32768, 52956967 / 32768, 52956967 / 32768, 264761561 / 32768, 52956967 / 32768, 264761561 / 32768, 0, 0, 0]
  [[1048753 / 677376, - (5242799 / 677376), - (5242799 / 677376), 11533931 / 18289152, 26213995 / 18289152, 11533931 / 18289152, 0, 0, 0],
   [- (5242799 / 677376), 1546651787 / 18289152, - (131071109 / 18289152), - (5242799 / 677376), - (131071109 / 18289152), 26213995 / 18289152, 0, 0, 0],
   [- (5242799 / 677376), - (131071109 / 18289152), 1546651787 / 18289152, 26213995 / 18289152, - (131071109 / 18289152), - (5242799 / 677376), 0, 0, 0],
   [11533931 / 18289152, - (5242799 / 677376), 26213995 / 18289152, 1048753 / 677376, - (5242799 / 677376), 11533931 / 18289152, 0, 0, 0],
   [26213995 / 18289152, - (131071109 / 18289152), - (131071109 / 18289152), - (5242799 / 677376), 1546651787 / 18289152, - (5242799 / 677376), 0, 0, 0],
   [11533931 / 18289152, 26213995 / 18289152, - (5242799 / 677376), 11533931 / 18289152, - (5242799 / 677376), 1048753 / 677376, 0, 0, 0],
   [0, 0, 0, 0, 0, 0, 607475 / 10349793792, - (178957 / 10349793792), - (178957 / 10349793792)],
   [0, 0, 0, 0, 0, 0, - (178957 / 10349793792), 607475 / 10349793792, - (178957 / 10349793792)],
   [0, 0, 0, 0, 0, 0, - (178957 / 10349793792), - (178957 / 10349793792), 607475 / 10349793792]])) =
  [2113 / 432, - (5003 / 432), - (5003 / 432), 2113 / 432, - (5003 / 432), 2113 / 432, 1 / 2, 1 / 2, 1 / 2]"
  by (simp add: x_init_def vsub_def vscale_def vec_mat_def vdot_def)

lemma stalled_verdict0: "converged
  [2113 / 432, - (5003 / 432), - (5003 / 432), 2113 / 432, - (5003 / 432), 2113 / 432, 1 / 2, 1 / 2, 1 / 2]
  x_init = Inr False"
  by (simp add: converged_def relative_change_def x_init_def vscale_def vsub_def vadd_def
      np_divide_def py_max_def tolerance_def)

lemma stalled_first_iteration:
  "gauss_newton (Suc 0) stalled x_init x_init 1 100000 = Inr None"
proof -
  have o: "optvec_to_M_and_b x_init = ([[5, 1 / 2, 1 / 2], [1 / 2, 5, 1 / 2], [1 / 2, 1 / 2, 5]], [1 / 2, 1 / 2, 1 / 2])"
    by (simp add: optvec_to_M_and_b_def x_init_def)
  show ?thesis
    by (simp only: gauss_newton.simps(2) [of 0 stalled x_init] gauss_newton.simps(1) o prod.case Let_def
        sum.case bool.case stalled_J0 stalled_R0 stalled_A0 stalled_H0 stalled_D0 stalled_x0 stalled_verdict0)
qed

subsection \<open>What the convergence criterion accepts\<close>

text \<open>
  Where no component of \<open>x + last_x\<close> is zero, the criterion compares the absolute
  value of the largest signed quotient with the tolerance.
\<close>

lemma py_max_from_fin:
  "py_max_from (Fin a) (map Fin rs) = Fin (Max (set (a # rs)))"
proof (induction rs arbitrary: a)
  case Nil
  then show ?case by simp
next
  case (Cons r rs)
  have "(if np_gt (Fin r) (Fin a) then Fin r else Fin a) = Fin (max a r)"
    by (simp add: max_def)
  moreover have "Max (set (max a r # rs)) = Max (set (a # r # rs))"
    by (cases "rs = []") (simp_all add: max.assoc)
  ultimately show ?case using Cons.IH [of "max a r"] by simp
qed

lemma relative_change_finite:
  assumes "length x = length last_x"
    and "\<forall>i < length x. x ! i + last_x ! i \<noteq> 0"
  shows "relative_change x last_x = map Fin (map2 (\<lambda>a b. 2 * (a - b) / (a + b)) x last_x)"
proof (rule nth_equalityI)
  show "length (relative_change x last_x) = length (map Fin (map2 (\<lambda>a b. 2 * (a - b) / (a + b)) x last_x))"
    by (simp add: relative_change_def vscale_def vsub_def vadd_def)
next
  fix i assume "i < length (relative_change x last_x)"
  then have i: "i < length x" "i < length last_x"
    using assms(1) by (simp_all add: relative_change_def vscale_def vsub_def vadd_def)
  with assms(2) have "x ! i + last_x ! i \<noteq> 0" by simp
  with i show "relative_change x last_x ! i = map Fin (map2 (\<lambda>a b. 2 * (a - b) / (a + b)) x last_x) ! i"
    by (simp add: relative_change_def vscale_def vsub_def vadd_def np_divide_def)
qed

lemma converged_is_abs_of_max:
  assumes "length x = length last_x" and "x \<noteq> []"
    and "\<forall>i < length x. x ! i + last_x ! i \<noteq> 0"
  shows "converged x last_x =
           Inr (\<bar>Max (set (map2 (\<lambda>a b. 2 * (a - b) / (a + b)) x last_x))\<bar> \<le> tolerance)"
proof -
  let ?rs = "map2 (\<lambda>a b. 2 * (a - b) / (a + b)) x last_x"
  from assms(1,2) have "?rs \<noteq> []" by (cases x; cases last_x) simp_all
  then obtain r rs where rs: "?rs = r # rs" by (cases ?rs) simp_all
  have "relative_change x last_x = map Fin ?rs"
    by (rule relative_change_finite [OF assms(1,3)])
  also have "\<dots> = Fin r # map Fin rs"
    by (simp only: rs list.map)
  finally have "relative_change x last_x = Fin r # map Fin rs" .
  then show ?thesis
    using py_max_from_fin [of r rs] rs by (simp add: converged_def py_max_def)
qed

lemma nbr_iterations_Suc: "nbr_iterations = Suc 199"
  by (simp add: nbr_iterations_def)

text \<open>
  Claim C4. The claim asks for the largest absolute relative change of the nine parameters
  to be within the tolerance before the loop stops. The source takes the absolute value of
  the largest signed change. On the first point set the first iteration moves \<open>Mxx\<close>
  from \<open>5\<close> to \<open>70 / 27\<close>, a relative change of about \<open>0.63\<close>, and leaves the bias
  where it was; the largest signed change is \<open>0\<close>, the loop stops and the solver stores
  the matrix of that single step.
\<close>

theorem shrunk_accepted_at_first_iteration:
  "perform_calibration_optimisation fresh shrunk =
     (fresh\<lparr>acc_scale_factor_matrix :=
               Some [[70 / 27, 31 / 108, 31 / 108], [31 / 108, 70 / 27, 31 / 108], [31 / 108, 31 / 108, 70 / 27]],
            acc_bias_vector := Some [1 / 2, 1 / 2, 1 / 2]\<rparr>, None) \<and>
   gauss_newton 1 shrunk x_init x_init 1 100000 =
     Inr (Some ([[70 / 27, 31 / 108, 31 / 108], [31 / 108, 70 / 27, 31 / 108], [31 / 108, 31 / 108, 70 / 27]],
                [1 / 2, 1 / 2, 1 / 2])) \<and>
   x_init ! 0 = 5 \<and> tolerance < \<bar>2 * (70 / 27 - 5) / (70 / 27 + 5)\<bar>"
proof -
  have l: "\<not> length shrunk < 9" by (simp add: shrunk_def)
  have p: "perform_calibration_optimisation fresh shrunk =
     (fresh\<lparr>acc_scale_factor_matrix :=
               Some [[70 / 27, 31 / 108, 31 / 108], [31 / 108, 70 / 27, 31 / 108], [31 / 108, 31 / 108, 70 / 27]],
            acc_bias_vector := Some [1 / 2, 1 / 2, 1 / 2]\<rparr>, None)"
    by (simp only: perform_calibration_optimisation_def l if_False nbr_iterations_Suc
        shrunk_first_iteration sum.case option.case prod.case)
  have g: "gauss_newton 1 shrunk x_init x_init 1 100000 =
     Inr (Some ([[70 / 27, 31 / 108, 31 / 108], [31 / 108, 70 / 27, 31 / 108], [31 / 108, 31 / 108, 70 / 27]],
                [1 / 2, 1 / 2, 1 / 2]))"
    using shrunk_first_iteration [of 0] by (simp only: One_nat_def)
  show ?thesis
    using p g by (simp add: tolerance_def x_init_def del: gauss_newton.simps)
qed

subsection \<open>Division by zero in the convergence criterion\<close>

lemma np_gt_nan: "np_gt v NaN = False"
  by (cases v) simp_all

lemma py_max_from_nan: "py_max_from NaN vs = NaN"
  by (induction vs) (simp_all add: np_gt_nan)

lemma py_max_from_pinf: "py_max_from PInf vs = PInf"
proof (induction vs)
  case Nil
  then show ?case by simp
next
  case (Cons v vs)
  then show ?case by (cases v) simp_all
qed

lemma py_max_from_reaches_pinf:
  "PInf \<in> set vs \<Longrightarrow> m \<noteq> NaN \<Longrightarrow> py_max_from m vs = PInf"
proof (induction vs arbitrary: m)
  case Nil
  then show ?case by simp
next
  case (Cons v vs)
  show ?case
  proof (cases "v = PInf")
    case True
    with Cons.prems(2) have "(if np_gt v m then v else m) = PInf"
      by (cases m) simp_all
    then show ?thesis by (simp add: py_max_from_pinf)
  next
    case False
    with Cons.prems(1) have in_vs: "PInf \<in> set vs" by simp
    have "(if np_gt v m then v else m) \<noteq> NaN"
      using Cons.prems(2) by (cases v; cases m) simp_all
    from Cons.IH [OF in_vs this] show ?thesis by simp
  qed
qed

lemma pinf_not_converged:
  assumes "PInf \<in> set (relative_change x last_x)"
  shows "converged x last_x = Inr False"
proof (cases "relative_change x last_x")
  case Nil
  with assms show ?thesis by simp
next
  case (Cons v vs)
  show ?thesis
  proof (cases "v = NaN")
    case True
    with Cons show ?thesis by (simp add: converged_def py_max_def py_max_from_nan)
  next
    case False
    have "py_max_from v vs = PInf"
    proof (cases "v = PInf")
      case True
      then show ?thesis by (simp add: py_max_from_pinf)
    next
      case notp: False
      with assms Cons have "PInf \<in> set vs" by simp
      from py_max_from_reaches_pinf [OF this False] show ?thesis .
    qed
    with Cons show ?thesis by (simp add: converged_def py_max_def)
  qed
qed

lemma relative_change_nth:
  assumes "length x = length last_x" and "k < length x"
  shows "relative_change x last_x ! k = np_divide (2 * (x ! k - last_x ! k)) (x ! k + last_x ! k)"
  using assms by (simp add: relative_change_def vscale_def vsub_def vadd_def)

lemma relative_change_length:
  "length x = length last_x \<Longrightarrow> length (relative_change x last_x) = length x"
  by (simp add: relative_change_def vscale_def vsub_def vadd_def)

lemma nan_first_not_converged:
  assumes "relative_change x last_x \<noteq> []" and "relative_change x last_x ! 0 = NaN"
  shows "converged x last_x = Inr False"
proof -
  from assms obtain vs where "relative_change x last_x = NaN # vs"
    by (cases "relative_change x last_x") simp_all
  then show ?thesis by (simp add: converged_def py_max_def py_max_from_nan)
qed

text \<open>
  Claim C5, as amended. Where a component of \<open>x + last_x\<close> is zero the criterion divides
  all the same and does not raise: the quotient of that parameter is \<open>+inf\<close> when the new
  value is above the old one, \<open>-inf\<close> when it is below, and \<open>nan\<close> when both are zero;
  the criterion still gives a verdict, and the verdict is not converged when the quotient
  is \<open>+inf\<close> and when it is the \<open>nan\<close> of the first parameter.
\<close>

theorem unguarded_division:
  assumes "length x = length last_x" and "k < length x" and "x ! k + last_x ! k = 0"
  shows "relative_change x last_x ! k =
           (if last_x ! k < x ! k then PInf else if x ! k < last_x ! k then NInf else NaN) \<and>
         (\<exists>verdict. converged x last_x = Inr verdict) \<and>
         (last_x ! k < x ! k \<or> (k = 0 \<and> x ! k = last_x ! k) \<longrightarrow> converged x last_x = Inr False)"
proof -
  have q: "relative_change x last_x ! k =
           (if last_x ! k < x ! k then PInf else if x ! k < last_x ! k then NInf else NaN)"
    using assms by (simp add: relative_change_nth np_divide_def)
  have ne: "relative_change x last_x \<noteq> []"
    using assms(1,2) relative_change_length [of x last_x] by auto
  then have v: "\<exists>verdict. converged x last_x = Inr verdict"
    by (cases "relative_change x last_x") (simp_all add: converged_def py_max_def)
  have p: "converged x last_x = Inr False" if "last_x ! k < x ! k"
  proof -
    from q that have "relative_change x last_x ! k = PInf" by simp
    moreover have "k < length (relative_change x last_x)"
      using assms(1,2) by (simp add: relative_change_length)
    ultimately have "PInf \<in> set (relative_change x last_x)"
      by (metis nth_mem)
    then show ?thesis by (rule pinf_not_converged)
  qed
  have n: "converged x last_x = Inr False" if "k = 0 \<and> x ! k = last_x ! k"
  proof -
    from that have k: "k = 0" and e: "x ! k = last_x ! k" by blast+
    from q e have "relative_change x last_x ! k = NaN" by simp
    with k have "relative_change x last_x ! 0 = NaN" by simp
    with ne show ?thesis by (rule nan_first_not_converged)
  qed
  from q v p n show ?thesis by blast
qed

theorem unguarded_division_witness:
  "(relative_change x_init [5, - (1 / 2), 1 / 2, 5, 1 / 2, 5, 1 / 2, 1 / 2, 1 / 2] ! 1 = PInf \<and>
    converged x_init [5, - (1 / 2), 1 / 2, 5, 1 / 2, 5, 1 / 2, 1 / 2, 1 / 2] = Inr False) \<and>
   (relative_change [0, 1 / 2] [0, 1 / 2] ! 0 = NaN \<and> converged [0, 1 / 2] [0, 1 / 2] = Inr False)"
proof -
  let ?l = "[5, - (1 / 2), 1 / 2, 5, 1 / 2, 5, 1 / 2, 1 / 2, 1 / 2] :: real list"
  have a: "length x_init = length ?l" by (simp add: x_init_def)
  have b: "1 < length x_init" by (simp add: x_init_def)
  have c: "x_init ! 1 + ?l ! 1 = 0" by (simp add: x_init_def)
  have d: "?l ! 1 < x_init ! 1" by (simp add: x_init_def)
  from unguarded_division [OF a b c] d have first:
    "relative_change x_init ?l ! 1 = PInf \<and> converged x_init ?l = Inr False"
    by simp
  let ?z = "[0, 1 / 2] :: real list"
  have a': "length ?z = length ?z" by simp
  have b': "0 < length ?z" by simp
  have c': "?z ! 0 + ?z ! 0 = 0" by simp
  from unguarded_division [OF a' b' c'] have second:
    "relative_change ?z ?z ! 0 = NaN \<and> converged ?z ?z = Inr False"
    by simp
  from first second show ?thesis by blast
qed

text \<open>
  Claim C5 as written fails where the first parameter is zero before and after an
  iteration and no parameter has moved: the claim counts every parameter as converged,
  while the quotient of the first parameter is \<open>nan\<close>, Python's \<open>max\<close> starts from it
  and keeps it, and the comparison with the tolerance is false.
\<close>

theorem both_zero_first_parameter_not_converged:
  "relative_change [0, 1 / 2, 1 / 2, 5, 1 / 2, 5, 1 / 2, 1 / 2, 1 / 2]
                   [0, 1 / 2, 1 / 2, 5, 1 / 2, 5, 1 / 2, 1 / 2, 1 / 2] =
     [NaN, Fin 0, Fin 0, Fin 0, Fin 0, Fin 0, Fin 0, Fin 0, Fin 0] \<and>
   converged [0, 1 / 2, 1 / 2, 5, 1 / 2, 5, 1 / 2, 1 / 2, 1 / 2]
             [0, 1 / 2, 1 / 2, 5, 1 / 2, 5, 1 / 2, 1 / 2, 1 / 2] = Inr False"
  by (simp add: converged_def relative_change_def vscale_def vsub_def vadd_def np_divide_def
      py_max_def)


subsection \<open>Outcomes of the solver\<close>

lemma gauss_jordan_error:
  "gauss_jordan n reduced todo = Inl e \<Longrightarrow> e = LinAlgError"
  by (induction n arbitrary: reduced todo) (auto simp: Let_def split: option.splits prod.splits)

lemma linalg_inv_error: "linalg_inv A = Inl e \<Longrightarrow> e = LinAlgError"
  by (auto simp: linalg_inv_def dest: gauss_jordan_error split: if_splits)

lemma converged_error: "converged x last_x = Inl e \<Longrightarrow> \<exists>m. e = ValueError m"
  by (auto simp: converged_def py_max_def split: sum.splits list.splits)

lemma gauss_newton_error:
  "gauss_newton n points x last_x gain R_prior = Inl e \<Longrightarrow> e = LinAlgError \<or> (\<exists>m. e = ValueError m)"
proof (induction n arbitrary: x last_x gain R_prior)
  case 0
  then show ?case by simp
next
  case (Suc n)
  obtain M b where o: "optvec_to_M_and_b x = (M, b)" by (cases "optvec_to_M_and_b x")
  let ?R = "map (\<lambda>point. error_function M b point) points"
  let ?J = "map (\<lambda>point. jacobian M b point) points"
  show ?case
  proof (cases "linalg_inv (mat_mul (transpose ?J) ?J)")
    case (Inl e')
    with Suc.prems o have "e = e'" by (simp add: Let_def)
    with Inl linalg_inv_error show ?thesis by blast
  next
    case (Inr H)
    let ?x' = "vsub x (vscale gain (vec_mat (mat_vec (transpose ?J) ?R) H))"
    show ?thesis
    proof (cases "converged ?x' last_x")
      case (Inl e')
      with Suc.prems o Inr have "e = e'" by (simp add: Let_def)
      with Inl converged_error show ?thesis by blast
    next
      case c: (Inr v)
      show ?thesis
      proof (cases v)
        case True
        with Suc.prems o Inr c show ?thesis by (simp add: Let_def)
      next
        case False
        with Suc.prems o Inr c obtain g r where
          "gauss_newton n points ?x' ?x' g r = Inl e"
          by (simp add: Let_def)
        from Suc.IH [OF this] show ?thesis .
      qed
    qed
  qed
qed

lemma exhausted_loop_returns_normally:
  assumes "9 \<le> length points"
    and "gauss_newton nbr_iterations points x_init x_init 1 100000 = Inr None"
  shows "perform_calibration_optimisation self points = (self, None)"
  using assms by (simp add: perform_calibration_optimisation_def)

text \<open>
  The solver has four outcomes: it returns with the object untouched, it returns with the
  matrix and the bias stored, it raises numpy's \<open>LinAlgError\<close>, or it raises a
  \<open>ValueError\<close>.
\<close>

lemma solver_outcomes:
  "perform_calibration_optimisation self points = (self, None) \<or>
   (\<exists>M b. perform_calibration_optimisation self points =
       (self\<lparr>acc_scale_factor_matrix := Some M, acc_bias_vector := Some b\<rparr>, None)) \<or>
   perform_calibration_optimisation self points = (self, Some LinAlgError) \<or>
   (\<exists>m. perform_calibration_optimisation self points = (self, Some (ValueError m)))"
proof (cases "length points < 9")
  case True
  then show ?thesis by (simp add: perform_calibration_optimisation_def)
next
  case False
  show ?thesis
  proof (cases "gauss_newton nbr_iterations points x_init x_init 1 100000")
    case (Inl e)
    from gauss_newton_error [OF Inl] Inl False show ?thesis
      by (auto simp: perform_calibration_optimisation_def)
  next
    case (Inr r)
    with False show ?thesis
      by (cases r) (auto simp: perform_calibration_optimisation_def)
  qed
qed

lemma perform_is_budget:
  "perform_calibration_optimisation self points = perform_with_budget nbr_iterations self points"
  by (simp add: perform_calibration_optimisation_def perform_with_budget_def)

text \<open>
  Claim C3. The claim asks for an error when the iterations end without convergence. In
  the source the \<open>for\<close> loop then simply ends: whatever the number of iterations, when
  none of them reaches the \<open>break\<close> and none raises, the solver returns normally and
  the object, with its matrix and bias, is as it was before the call. The method of the
  source is the case of two hundred iterations.
\<close>

theorem exhausted_budget_returns_unset:
  assumes "9 \<le> length points"
    and "gauss_newton n points x_init x_init 1 100000 = Inr None"
  shows "perform_with_budget n self points = (self, None) \<and>
         perform_calibration_optimisation self points = perform_with_budget nbr_iterations self points"
  using assms by (simp add: perform_with_budget_def perform_is_budget)

text \<open>
  On the second point set the first iteration takes \<open>Mxy\<close> from \<open>1 / 2\<close> to
  \<open>- 5003 / 432\<close>; the criterion is not met, and a solver of one iteration returns with
  nothing stored.
\<close>

theorem exhausted_budget_returns_unset_witness:
  "9 \<le> length stalled \<and>
   gauss_newton 1 stalled x_init x_init 1 100000 = Inr None \<and>
   perform_with_budget 1 fresh stalled = (fresh, None)"
proof -
  have l: "9 \<le> length stalled" by (simp add: stalled_def)
  have g: "gauss_newton 1 stalled x_init x_init 1 100000 = Inr None"
    using stalled_first_iteration by (simp only: One_nat_def)
  from exhausted_budget_returns_unset [OF l g, of fresh] l g show ?thesis by blast
qed

subsection \<open>Saving and loading\<close>

lemma np_array_float_tolist: "np_array_float (tolist v) = Inr v"
proof -
  have "list_all is_num (map JNum v)" by (induction v) simp_all
  moreover have "map num_of (map JNum v) = v" by (induction v) simp_all
  ultimately show ?thesis by (simp add: np_array_float_def tolist_def)
qed

lemma reshape33_concat:
  assumes "length M = 3" and "\<forall>row \<in> set M. length row = 3"
  shows "reshape33 (concat M) = Inr M"
proof -
  obtain R0 R1 R2 where m: "M = [R0, R1, R2]"
    using assms(1) by (auto simp: length_Suc_conv eval_nat_numeral)
  with assms(2) have "length R0 = 3" "length R1 = 3" "length R2 = 3" by simp_all
  then show ?thesis by (simp add: reshape33_def m)
qed

text \<open>
  For every object with its four parameters set and a matrix of three rows of three, the
  document that \<open>save\<close> writes loads again; the four parameters come back as they
  were, the gyroscope values come back as the defaults, and the two metadata attributes
  come back exchanged, with the default version in place of the settings.
\<close>

lemma save_load_general:
  assumes "acc_zero_g self = Some zero" and "acc_sensitivity self = Some sens"
    and "acc_scale_factor_matrix self = Some M" and "acc_bias_vector self = Some B"
    and "length M = 3" and "\<forall>row \<in> set M. length row = 3"
  shows "bind_error (save self) (load version) =
           Inr \<lparr> pyberryimu_version = berryimu_settings self, berryimu_settings = JStr version,
                 acc_zero_g = Some zero, acc_sensitivity = Some sens,
                 acc_scale_factor_matrix = Some M, acc_bias_vector = Some B,
                 gyro_zero = [0, 0, 0], gyro_sensitivity = [1, 1, 1] \<rparr>"
proof -
  have t0: "np_array_float (JList [JNum 0, JNum 0, JNum 0]) = Inr [0, 0, 0]"
    and t1: "np_array_float (JList [JNum 1, JNum 1, JNum 1]) = Inr [1, 1, 1]"
    by (simp_all add: np_array_float_def)
  show ?thesis
    using assms(1-4)
    by (simp add: save_def load_def bind_error_def dict_get_def np_array_float_tolist
        reshape33_concat [OF assms(5,6)] StandardCalibration_def t0 t1 tolist_def [of "[0, 0, 0]"]
        tolist_def [of "[1, 1, 1]"])
qed

text \<open>
  Claim C6. Saving a calibrated object and loading the document back keeps the four
  accelerometer parameters, but \<open>load\<close> stores the version under \<open>berryimu_settings\<close>
  and the settings under \<open>pyberryimu_version\<close>; \<open>save\<close> writes no version, so the
  version read back is the default.
\<close>

theorem save_load_swaps_metadata:
  "save calibrated = Inr (JObj
      [(''BerryIMU_settings'', JObj [(''acc_setup'', JNum 1)]),
       (''accelerometer'', JObj
          [(''zero'', JList [JNum 0, JNum 200, JNum 100]),
           (''sensitivity'', JList [JNum (1 / 1000), JNum (1 / 1000), JNum (1 / 400)]),
           (''scale_factor'', JList [JNum 1, JNum 0, JNum 0, JNum 0, JNum 1, JNum 0, JNum 0, JNum 0, JNum 1]),
           (''bias'', JList [JNum 0, JNum 0, JNum 0])]),
       (''gyro'', JObj
          [(''zero'', JList [JNum 0, JNum 0, JNum 0]),
           (''sensitivity'', JList [JNum 1, JNum 1, JNum 1])])]) \<and>
   bind_error (save calibrated) (load ''0.1'') =
     Inr (calibrated\<lparr>berryimu_settings := JStr ''0.1'',
                     pyberryimu_version := JObj [(''acc_setup'', JNum 1)]\<rparr>) \<and>
   berryimu_settings calibrated = JObj [(''acc_setup'', JNum 1)] \<and>
   pyberryimu_version calibrated = JStr ''0.1''"
  by (simp add: save_def load_def calibrated_def fresh_def StandardCalibration_def bind_error_def
      dict_get_def tolist_def np_array_float_def reshape33_def)

subsection \<open>A failed calibration run\<close>

lemma perform_error_unchanged:
  "perform_calibration_optimisation self points = (self', Some e) \<Longrightarrow> self' = self"
  by (auto simp: perform_calibration_optimisation_def split: if_splits sum.splits option.splits prod.splits)

lemma six_point_fields:
  assumes "do_six_point_one_g_calibration c self = (self2, r)"
  shows "acc_zero_g self2 \<noteq> None \<and> acc_sensitivity self2 \<noteq> None \<and>
         berryimu_settings self2 = berryimu_settings self \<and>
         acc_scale_factor_matrix self2 = acc_scale_factor_matrix self \<and>
         acc_bias_vector self2 = acc_bias_vector self"
  using assms by (auto simp: do_six_point_one_g_calibration_def split: prod.splits)

text \<open>
  Claim C10, as amended. When \<open>calibrate_accelerometer\<close> raises on an object that is
  not yet calibrated, the matrix and the bias are as they were. With a client that has no
  \<open>get_settings\<close>, as the \<open>BerryIMUClient\<close> of the repository, the error is the
  \<open>AttributeError\<close> of that call and the object is untouched. With a client that has
  the method, the settings are stored and the zero and the sensitivity of the six-point
  pass are set on the object, whichever later step raises.
\<close>

theorem failed_run_state:
  assumes "acc_zero_g self = None"
    and "calibrate_accelerometer c self = (self', Some e)"
  shows "(case get_settings c of
            None \<Rightarrow> self' = self \<and> e = AttributeError
          | Some settings \<Rightarrow>
              berryimu_settings self' = settings \<and>
              acc_zero_g self' \<noteq> None \<and> acc_sensitivity self' \<noteq> None \<and>
              acc_scale_factor_matrix self' = acc_scale_factor_matrix self \<and>
              acc_bias_vector self' = acc_bias_vector self)"
proof (cases "get_settings c")
  case None
  with assms show ?thesis by (simp add: calibrate_accelerometer_def)
next
  case (Some settings)
  let ?self1 = "self\<lparr>berryimu_settings := settings\<rparr>"
  obtain self2 r where six: "do_six_point_one_g_calibration c ?self1 = (self2, r)"
    by (cases "do_six_point_one_g_calibration c ?self1")
  from six_point_fields [OF six] have f:
    "acc_zero_g self2 \<noteq> None" "acc_sensitivity self2 \<noteq> None"
    "berryimu_settings self2 = settings"
    "acc_scale_factor_matrix self2 = acc_scale_factor_matrix self"
    "acc_bias_vector self2 = acc_bias_vector self"
    by simp_all
  have "self' = self2"
  proof (cases r)
    case (Inl e')
    with assms Some six show ?thesis by (simp add: calibrate_accelerometer_def)
  next
    case (Inr pts)
    from f(1,2) obtain zero sens where zs: "acc_zero_g self2 = Some zero" "acc_sensitivity self2 = Some sens"
      by auto
    with assms Some six Inr have
      "perform_calibration_optimisation self2
         (map (\<lambda>point. vmul (vsub point zero) sens) (pts @ add_additional_points c)) = (self', Some e)"
      by (simp add: calibrate_accelerometer_def)
    then show ?thesis by (rule perform_error_unchanged)
  qed
  with f Some show ?thesis by simp
qed

lemma bench_run:
  "calibrate_accelerometer bench fresh =
     (fresh\<lparr>berryimu_settings := JObj [(''acc_setup'', JNum 1)],
            acc_zero_g := Some [0, 200, 100],
            acc_sensitivity := Some [1 / 1000, 1 / 1000, 1 / 400]\<rparr>,
      Some (ValueError ''Need at least 9 Measurements for the calibration procedure!''))"
proof -
  have six: "do_six_point_one_g_calibration bench (fresh\<lparr>berryimu_settings := JObj [(''acc_setup'', JNum 1)]\<rparr>) =
     (fresh\<lparr>berryimu_settings := JObj [(''acc_setup'', JNum 1)],
            acc_zero_g := Some [0, 200, 100],
            acc_sensitivity := Some [1 / 1000, 1 / 1000, 1 / 400]\<rparr>,
      Inr [[- 1000, 5, 6], [1000, 3, 4], [9, 1200, 10], [7, - 800, 8], [3, 4, - 300], [1, 2, 500]])"
    by (simp add: do_six_point_one_g_calibration_def bench_def Let_def)
  have s: "get_settings bench = Some (JObj [(''acc_setup'', JNum 1)])" "additional_means bench = []"
    by (simp_all add: bench_def)
  have f: "acc_zero_g fresh = None"
    by (simp add: fresh_def StandardCalibration_def)
  show ?thesis
    by (simp add: calibrate_accelerometer_def f s six add_additional_points_def
        perform_calibration_optimisation_def)
qed

theorem failed_run_state_witness:
  "acc_zero_g fresh = None \<and>
   snd (calibrate_accelerometer bench fresh) =
     Some (ValueError ''Need at least 9 Measurements for the calibration procedure!'') \<and>
   berryimu_settings (fst (calibrate_accelerometer bench fresh)) = JObj [(''acc_setup'', JNum 1)] \<and>
   acc_zero_g (fst (calibrate_accelerometer bench fresh)) \<noteq> None \<and>
   acc_sensitivity (fst (calibrate_accelerometer bench fresh)) \<noteq> None \<and>
   acc_scale_factor_matrix (fst (calibrate_accelerometer bench fresh)) = None \<and>
   acc_bias_vector (fst (calibrate_accelerometer bench fresh)) = None \<and>
   calibrate_accelerometer repository_client fresh = (fresh, Some AttributeError)"
proof -
  have f: "acc_zero_g fresh = None" "acc_scale_factor_matrix fresh = None" "acc_bias_vector fresh = None"
    by (simp_all add: fresh_def StandardCalibration_def)
  have gb: "get_settings bench = Some (JObj [(''acc_setup'', JNum 1)])"
    by (simp add: bench_def)
  have gr: "get_settings repository_client = None"
    by (simp add: repository_client_def)
  have cb: "calibrate_accelerometer bench fresh =
     (fst (calibrate_accelerometer bench fresh),
      Some (ValueError ''Need at least 9 Measurements for the calibration procedure!''))"
    by (simp add: bench_run)
  have eb: "snd (calibrate_accelerometer bench fresh) =
     Some (ValueError ''Need at least 9 Measurements for the calibration procedure!'')"
    by (simp add: bench_run)
  have er: "snd (calibrate_accelerometer repository_client fresh) = Some AttributeError"
    by (simp add: calibrate_accelerometer_def f gr)
  then have cr: "calibrate_accelerometer repository_client fresh =
     (fst (calibrate_accelerometer repository_client fresh), Some AttributeError)"
    by (cases "calibrate_accelerometer repository_client fresh") simp
  from failed_run_state [OF f(1) cb] gb f have b:
    "berryimu_settings (fst (calibrate_accelerometer bench fresh)) = JObj [(''acc_setup'', JNum 1)]"
    "acc_zero_g (fst (calibrate_accelerometer bench fresh)) \<noteq> None"
    "acc_sensitivity (fst (calibrate_accelerometer bench fresh)) \<noteq> None"
    "acc_scale_factor_matrix (fst (calibrate_accelerometer bench fresh)) = None"
    "acc_bias_vector (fst (calibrate_accelerometer bench fresh)) = None"
    by simp_all
  from failed_run_state [OF f(1) cr] gr have "fst (calibrate_accelerometer repository_client fresh) = fresh"
    by simp
  with cr have r: "calibrate_accelerometer repository_client fresh = (fresh, Some AttributeError)"
    by simp
  from f(1) eb b r show ?thesis by simp
qed

text \<open>
  Claim C10 as written fails for a client that has \<open>get_settings\<close>: with no additional
  point the run has six points and the solver raises \<open>ValueError\<close>, and the object
  keeps the settings, the zero and the sensitivity of the six-point pass. A second call
  then reports that the object has already been calibrated, and the transform fails for
  want of a matrix.
\<close>

theorem failed_run_leaves_zero_and_sensitivity:
  "calibrate_accelerometer bench fresh =
     (fresh\<lparr>berryimu_settings := JObj [(''acc_setup'', JNum 1)],
            acc_zero_g := Some [0, 200, 100],
            acc_sensitivity := Some [1 / 1000, 1 / 1000, 1 / 400]\<rparr>,
      Some (ValueError ''Need at least 9 Measurements for the calibration procedure!'')) \<and>
   calibrate_accelerometer bench (fst (calibrate_accelerometer bench fresh)) =
     (fst (calibrate_accelerometer bench fresh),
      Some (PyBerryIMUError ''This object has already been calibrated!'')) \<and>
   transform_accelerometer_values (fst (calibrate_accelerometer bench fresh)) [1000, 1200, 500] =
     Inl AttributeError"
  unfolding bench_run
  by (simp add: calibrate_accelerometer_def transform_accelerometer_values_def fresh_def
      StandardCalibration_def)

end
